theory Spec2Isabelle
  imports Complex_Main "HOL-Library.List_Lexorder" "HOL-Library.Char_ord" "HOL-Library.Multiset"
begin

section \<open>Data model (models.py)\<close>

text \<open>
  The three tables of \<^verbatim>\<open>models.py\<close>. Integer columns are Python/SQL integers
  (\<^typ>\<open>int\<close>), nullable columns are options, timestamps are integers (microseconds on
  the UTC clock). \<^verbatim>\<open>Product.price\<close> is a Float column; the routes only compare
  prices (ORDER BY) and never compute with them, so a price is a \<^typ>\<open>real\<close> and the
  model says nothing about a stored NaN. Python's \<^verbatim>\<open>sorted\<close> compares strings by
  code point; the order of \<^verbatim>\<open>ORDER BY\<close> on a string column is the collation of the
  database, a parameter of the listing below.
\<close>

record User =
  user_id :: int
  email :: string
  username :: string
  password_hash :: string
  full_name :: "string option"
  user_created_at :: "int option"

record Product =
  product_id :: int
  name :: string
  description :: "string option"
  price :: real
  category :: "string option"
  model_path :: "string option"
  image_url :: "string option"
  material :: "string option"
  color :: "string option"
  dimensions :: "(string \<times> real) list"
  in_stock :: "bool option"
  product_created_at :: "int option"

record UserFavorite =
  fav_id :: int
  fav_user_id :: int
  fav_product_id :: int
  added_at :: int

text \<open>
  The persistent store: the rows of each table in insertion order, and the sequence that
  generates the primary key of \<^verbatim>\<open>user_favorites\<close>.
\<close>

record database =
  users :: "User list"
  products :: "Product list"
  user_favorites :: "UserFavorite list"
  user_favorites_seq :: int

section \<open>Store primitives used by the routes\<close>

text \<open>\<^verbatim>\<open>User.query.get(user_id)\<close> and \<^verbatim>\<open>Product.query.get(product_id)\<close>:
  the row with that primary key, or None.\<close>

definition User_get :: "database \<Rightarrow> int \<Rightarrow> User option" where
  "User_get db uid = find (\<lambda>u. user_id u = uid) (users db)"

definition Product_get :: "database \<Rightarrow> int \<Rightarrow> Product option" where
  "Product_get db pid = find (\<lambda>p. product_id p = pid) (products db)"

text \<open>\<^verbatim>\<open>UserFavorite.query.filter_by(user_id=.., product_id=..).first()\<close>.\<close>

definition favorite_first :: "database \<Rightarrow> int \<Rightarrow> int \<Rightarrow> UserFavorite option" where
  "favorite_first db uid pid =
     find (\<lambda>f. fav_user_id f = uid \<and> fav_product_id f = pid) (user_favorites db)"

text \<open>\<^verbatim>\<open>UserFavorite.query.filter_by(user_id=user_id)\<close>.\<close>

definition favorites_of :: "database \<Rightarrow> int \<Rightarrow> UserFavorite list" where
  "favorites_of db uid = filter (\<lambda>f. fav_user_id f = uid) (user_favorites db)"

text \<open>
  \<^verbatim>\<open>db.session.add(UserFavorite(user_id=.., product_id=..)); db.session.commit()\<close>.
  The table declares two foreign keys and \<^verbatim>\<open>UniqueConstraint('user_id', 'product_id',
  name='unique_user_product')\<close>; a commit that violates one of them raises, and the
  route's \<^verbatim>\<open>except\<close> branch rolls the session back. The new row takes its id from
  the sequence and \<^verbatim>\<open>added_at\<close> from the column default \<^verbatim>\<open>datetime.utcnow\<close>,
  the current time \<open>now\<close>.
\<close>

datatype store_error = IntegrityError string

definition insert_favorite ::
  "database \<Rightarrow> int \<Rightarrow> int \<Rightarrow> int \<Rightarrow> store_error + (database \<times> UserFavorite)" where
  "insert_favorite db uid pid now =
     (if User_get db uid = None then Inl (IntegrityError ''user_favorites_user_id_fkey'')
      else if Product_get db pid = None then Inl (IntegrityError ''user_favorites_product_id_fkey'')
      else if favorite_first db uid pid \<noteq> None then Inl (IntegrityError ''unique_user_product'')
      else
        let new_favorite = \<lparr>fav_id = user_favorites_seq db, fav_user_id = uid,
                              fav_product_id = pid, added_at = now\<rparr>
        in Inr (db\<lparr>user_favorites := user_favorites db @ [new_favorite],
                    user_favorites_seq := user_favorites_seq db + 1\<rparr>, new_favorite))"

text \<open>\<^verbatim>\<open>db.session.delete(favorite); db.session.commit()\<close>: a DELETE by primary key.\<close>

definition delete_favorite :: "database \<Rightarrow> UserFavorite \<Rightarrow> database" where
  "delete_favorite db favorite =
     db\<lparr>user_favorites := filter (\<lambda>f. fav_id f \<noteq> fav_id favorite) (user_favorites db)\<rparr>"

text \<open>\<^verbatim>\<open>UserFavorite.query.filter_by(user_id=user_id).delete(); db.session.commit()\<close>.\<close>

definition delete_favorites_of :: "database \<Rightarrow> int \<Rightarrow> database" where
  "delete_favorites_of db uid =
     db\<lparr>user_favorites := filter (\<lambda>f. fav_user_id f \<noteq> uid) (user_favorites db)\<rparr>"

text \<open>
  \<^verbatim>\<open>query.join(Product)\<close>: the inner join of favorites with products along the
  foreign key. The product's primary key is unique, so each favorite joins with the row
  that \<^verbatim>\<open>Product.query.get\<close> finds, and a favorite without product is dropped.
\<close>

definition join_Product :: "database \<Rightarrow> UserFavorite list \<Rightarrow> (UserFavorite \<times> Product) list" where
  "join_Product db rows =
     List.map_filter (\<lambda>f. map_option (Pair f) (Product_get db (fav_product_id f))) rows"

text \<open>
  The order of rows. PostgreSQL produces the rows of a query in an order of its own
  choice (the plan, the physical layout of the table), and \<^verbatim>\<open>ORDER BY\<close> on one key
  leaves rows with equal keys in whatever order they came; strings are compared by the
  collation of the database. Both choices are the store's, not the program's:
  \<open>scan\<close> is the order in which the store produces the rows of the base query, any
  permutation of them, and \<open>collate\<close> is the \<open>\<le>\<close> of the collation, any total
  preorder on strings (\<open>engine_ok\<close>). A route that lists rows takes the engine as a
  parameter, so that what is proved of it holds for every such choice.
\<close>

record engine =
  scan :: "UserFavorite list \<Rightarrow> UserFavorite list"
  collate :: "string \<Rightarrow> string \<Rightarrow> bool"

definition engine_ok :: "engine \<Rightarrow> bool" where
  "engine_ok st =
     ((\<forall>rows. mset (scan st rows) = mset rows) \<and>
      (\<forall>a b. collate st a b \<or> collate st b a) \<and>
      (\<forall>a b c. collate st a b \<longrightarrow> collate st b c \<longrightarrow> collate st a c))"

text \<open>
  \<^verbatim>\<open>query.order_by(..)\<close>: the rows sorted by the order \<open>le\<close> of the key, rows with
  equal keys staying as the store produced them. Together with \<open>scan\<close> this yields
  every sorted arrangement of the rows and no other (\<open>sorted_order_by\<close>,
  \<open>mset_order_by\<close> and \<open>order_by_any_order\<close> below).
\<close>

fun insert_by :: "('a \<Rightarrow> 'a \<Rightarrow> bool) \<Rightarrow> 'a \<Rightarrow> 'a list \<Rightarrow> 'a list" where
  "insert_by le x [] = [x]"
| "insert_by le x (y # ys) = (if le x y then x # y # ys else y # insert_by le x ys)"

fun order_by :: "('a \<Rightarrow> 'a \<Rightarrow> bool) \<Rightarrow> 'a list \<Rightarrow> 'a list" where
  "order_by le [] = []"
| "order_by le (x # xs) = insert_by le x (order_by le xs)"

text \<open>
  \<^verbatim>\<open>query.paginate(page=page, per_page=per_page, error_out=False)\<close> of
  Flask-SQLAlchemy: with \<^verbatim>\<open>error_out=False\<close> a page below 1 becomes 1 and a
  per_page below 1 becomes 20; the items are the rows of
  \<^verbatim>\<open>query.limit(per_page).offset((page - 1) * per_page)\<close> (\<open>page_of\<close>);
  \<^verbatim>\<open>pages\<close> is 0 for an empty query and \<^verbatim>\<open>ceil(total / per_page)\<close> otherwise.
  Python's integers are unbounded, PostgreSQL's \<^verbatim>\<open>LIMIT\<close> and \<^verbatim>\<open>OFFSET\<close> are
  \<^verbatim>\<open>bigint\<close>: a statement with a larger number is refused (\<^verbatim>\<open>bigint out of
  range\<close>), SQLAlchemy raises \<^verbatim>\<open>DataError\<close>, and nothing is returned. The error
  carries the server's sentence; the driver's full text around it is not modelled.
\<close>

datatype query_error = DataError string

definition bigint_max :: int where
  "bigint_max = 2 ^ 63 - 1"

definition page_of :: "'a list \<Rightarrow> int \<Rightarrow> int \<Rightarrow> 'a list" where
  "page_of query page per_page = take (nat per_page) (drop (nat ((page - 1) * per_page)) query)"

record 'a pagination =
  items :: "'a list"
  total :: nat
  pages :: int

definition paginate :: "'a list \<Rightarrow> int \<Rightarrow> int \<Rightarrow> query_error + 'a pagination" where
  "paginate query page0 per_page0 =
     (let page = (if page0 < 1 then 1 else page0);
          per_page = (if per_page0 < 1 then 20 else per_page0)
      in if bigint_max < per_page \<or> bigint_max < (page - 1) * per_page
         then Inl (DataError ''bigint out of range'')
         else Inr \<lparr>items = page_of query page per_page,
                   total = length query,
                   pages = (if length query = 0 then 0
                            else \<lceil>real (length query) / real_of_int per_page\<rceil>)\<rparr>)"

text \<open>\<^verbatim>\<open>str(n)\<close> for a Python int.\<close>

fun str_nat :: "nat \<Rightarrow> string" where
  "str_nat n = (if n < 10 then [char_of (48 + n)]
                else str_nat (n div 10) @ [char_of (48 + n mod 10)])"

declare str_nat.simps [simp del]

definition str :: "int \<Rightarrow> string" where
  "str i = (if i < 0 then CHR ''-'' # str_nat (nat (- i)) else str_nat (nat i))"

text \<open>
  \<^verbatim>\<open>request.args.get(key, default, type=type)\<close> of Werkzeug: the first value of the
  key converted by \<open>type\<close>; the default when the key is absent or the conversion raises
  ValueError (\<open>None\<close> here). The query string is the list of its key/value pairs.
\<close>

definition args_get :: "(string \<times> string) list \<Rightarrow> string \<Rightarrow> 'a \<Rightarrow> (string \<Rightarrow> 'a option) \<Rightarrow> 'a" where
  "args_get args key dflt type =
     (case map_of args key of
        None \<Rightarrow> dflt
      | Some rv \<Rightarrow> (case type rv of None \<Rightarrow> dflt | Some v \<Rightarrow> v))"

section \<open>The favorites routes (products/product_routes.py)\<close>

text \<open>
  A route returns \<^verbatim>\<open>(jsonify(body), status)\<close> and may change the store: it maps
  the store to a response and the store after the request. The user id is the integer the
  route reads from the verified bearer token (\<^verbatim>\<open>int(get_jwt_identity())\<close>).
  \<open>Failure message\<close> is the body \<^verbatim>\<open>{'success': False, 'message': message}\<close>;
  the other constructors are the bodies with \<^verbatim>\<open>'success': True\<close>.
\<close>

record favorites_page =
  count :: nat
  page :: int
  per_page :: int
  total_pages :: int
  favorites :: "Product list"

datatype body =
    Failure string
  | Favorite_added string UserFavorite "Product option"
  | Success string
  | Is_favorite bool
  | Favorites favorites_page
  | Deleted string nat
  | Categories "string list"

type_synonym response = "body \<times> nat"

text \<open>\<^verbatim>\<open>POST /api/products/<product_id>/favorite\<close>\<close>

definition add_to_favorite :: "database \<Rightarrow> int \<Rightarrow> int \<Rightarrow> int \<Rightarrow> response \<times> database" where
  "add_to_favorite db uid pid now =
     (case User_get db uid of
        None \<Rightarrow> ((Failure ''User not found'', 404), db)
      | Some user \<Rightarrow>
          (case Product_get db pid of
             None \<Rightarrow> ((Failure ''Product not found'', 404), db)
           | Some product \<Rightarrow>
               (case favorite_first db uid pid of
                  Some existing \<Rightarrow> ((Failure ''Product already in favorites'', 409), db)
                | None \<Rightarrow>
                    (case insert_favorite db uid pid now of
                       Inl (IntegrityError e) \<Rightarrow> ((Failure (''Error: '' @ e), 500), db)
                     | Inr (db', new_favorite) \<Rightarrow>
                         ((Favorite_added ''Product added to favorites'' new_favorite
                             (Product_get db' (fav_product_id new_favorite)), 201), db')))))"

text \<open>\<^verbatim>\<open>DELETE /api/products/<product_id>/favorite\<close>\<close>

definition remove_from_favorite :: "database \<Rightarrow> int \<Rightarrow> int \<Rightarrow> response \<times> database" where
  "remove_from_favorite db uid pid =
     (case favorite_first db uid pid of
        None \<Rightarrow> ((Failure ''Product is not in favorites'', 404), db)
      | Some favorite \<Rightarrow>
          ((Success ''Product removed from favorites'', 200), delete_favorite db favorite))"

text \<open>\<^verbatim>\<open>GET /api/products/<product_id>/favorite\<close>\<close>

definition is_favorite :: "database \<Rightarrow> int \<Rightarrow> int \<Rightarrow> response" where
  "is_favorite db uid pid = (Is_favorite (favorite_first db uid pid \<noteq> None), 200)"

text \<open>
  \<^verbatim>\<open>GET /api/products/my/favorites\<close>, from the validation of the parameters on:
  the clamps, the base query and its order, the count, the page and the products of the
  page's favorites. \<open>favorites_query\<close> is the ordered query. Every exception ends in
  the route's \<^verbatim>\<open>except\<close> branch, which answers 500 with the exception's text: the
  store's refusal of the page query, and the AttributeError of \<^verbatim>\<open>None.to_dict()\<close>
  when \<^verbatim>\<open>fav.product\<close> is None, the product of a favorite being missing.
\<close>

definition clamp_page :: "int \<Rightarrow> int" where
  "clamp_page page0 = (if page0 < 1 then 1 else page0)"

definition clamp_per_page :: "int \<Rightarrow> int" where
  "clamp_per_page per_page0 =
     (let per_page = (if per_page0 < 1 then 12 else per_page0)
      in if per_page > 100 then 100 else per_page)"

definition favorites_query :: "engine \<Rightarrow> database \<Rightarrow> int \<Rightarrow> string \<Rightarrow> UserFavorite list" where
  "favorites_query st db uid sort_by =
     (let query = scan st (favorites_of db uid) in
      if sort_by = ''price_asc'' then
        map fst (order_by (\<lambda>a b. price (snd a) \<le> price (snd b)) (join_Product db query))
      else if sort_by = ''price_desc'' then
        map fst (order_by (\<lambda>a b. price (snd a) \<ge> price (snd b)) (join_Product db query))
      else if sort_by = ''newest'' then
        order_by (\<lambda>a b. added_at a \<ge> added_at b) query
      else
        map fst (order_by (\<lambda>a b. collate st (name (snd a)) (name (snd b)))
                   (join_Product db query)))"

definition list_favorites ::
  "engine \<Rightarrow> database \<Rightarrow> int \<Rightarrow> int \<Rightarrow> int \<Rightarrow> string \<Rightarrow> response" where
  "list_favorites st db uid page0 per_page0 sort_by =
     (let page = clamp_page page0;
          per_page = clamp_per_page per_page0;
          query = favorites_query st db uid sort_by;
          total = length query
      in case paginate query page per_page of
           Inl (DataError e) \<Rightarrow> (Failure (''Error: '' @ e), 500)
         | Inr paginated \<Rightarrow>
             (case those (map (\<lambda>fav. Product_get db (fav_product_id fav)) (items paginated)) of
                None \<Rightarrow>
                  (Failure (''Error: 'NoneType' object has no attribute 'to_dict'' @ [CHR 0x27]), 500)
              | Some favorites_data \<Rightarrow>
                  (Favorites \<lparr>count = total, page = page, per_page = per_page,
                               total_pages = pages paginated, favorites = favorites_data\<rparr>, 200)))"

text \<open>
  The whole route: \<^verbatim>\<open>page\<close> and \<^verbatim>\<open>per_page\<close> are read with \<^verbatim>\<open>type=int\<close>
  and the defaults 1 and 12, \<^verbatim>\<open>sort_by\<close> as a string with the default
  \<^verbatim>\<open>'name'\<close>. \<open>py_int\<close> is Python's \<^verbatim>\<open>int\<close> on a string, \<open>None\<close> where
  it raises ValueError.
\<close>

definition get_my_favorites ::
  "(string \<Rightarrow> int option) \<Rightarrow> engine \<Rightarrow> database \<Rightarrow> int \<Rightarrow> (string \<times> string) list \<Rightarrow> response" where
  "get_my_favorites py_int st db uid args =
     list_favorites st db uid
       (args_get args ''page'' 1 py_int)
       (args_get args ''per_page'' 12 py_int)
       (args_get args ''sort_by'' ''name'' Some)"

text \<open>\<^verbatim>\<open>DELETE /api/products/my/favorites/clear\<close>\<close>

definition clear_all_favorites :: "database \<Rightarrow> int \<Rightarrow> response \<times> database" where
  "clear_all_favorites db uid =
     (let count = length (favorites_of db uid);
          db' = delete_favorites_of db uid
      in ((Deleted (''Deleted '' @ str (int count) @ '' products from favorites'') count, 200),
          db'))"

section \<open>The category routes (products/product_routes.py and app.py)\<close>




section \<open>Login (auth/auth_routes.py)\<close>









section \<open>Store constraints and request sequences\<close>

text \<open>
  The constraints that \<^verbatim>\<open>models.py\<close> declares on \<^verbatim>\<open>user_favorites\<close>: the
  uniqueness of the pair (user_id, product_id), and the two foreign keys.
\<close>

definition unique_user_product :: "database \<Rightarrow> bool" where
  "unique_user_product db =
     distinct (map (\<lambda>f. (fav_user_id f, fav_product_id f)) (user_favorites db))"

definition foreign_keys :: "database \<Rightarrow> bool" where
  "foreign_keys db =
     list_all (\<lambda>f. User_get db (fav_user_id f) \<noteq> None \<and> Product_get db (fav_product_id f) \<noteq> None)
       (user_favorites db)"

text \<open>The number of Favorite rows of one pair.\<close>

definition pair_count :: "database \<Rightarrow> int \<Rightarrow> int \<Rightarrow> nat" where
  "pair_count db uid pid =
     length (filter (\<lambda>f. fav_user_id f = uid \<and> fav_product_id f = pid) (user_favorites db))"

text \<open>A mutating request of the favorites engine, and the store after a list of them.\<close>

datatype request = Add int int int | Remove int int | ClearAll int

fun apply_request :: "database \<Rightarrow> request \<Rightarrow> database" where
  "apply_request db (Add uid pid now) = snd (add_to_favorite db uid pid now)"
| "apply_request db (Remove uid pid) = snd (remove_from_favorite db uid pid)"
| "apply_request db (ClearAll uid) = snd (clear_all_favorites db uid)"

definition run :: "database \<Rightarrow> request list \<Rightarrow> database" where
  "run db reqs = foldl apply_request db reqs"

section \<open>Sample data\<close>

definition sample_user :: "int \<Rightarrow> string \<Rightarrow> User" where
  "sample_user i e =
     \<lparr>user_id = i, email = e, username = e, password_hash = ''pbkdf2'',
      full_name = None, user_created_at = None\<rparr>"

definition sample_product :: "int \<Rightarrow> string \<Rightarrow> real \<Rightarrow> string option \<Rightarrow> Product" where
  "sample_product i n pr cat =
     \<lparr>product_id = i, name = n, description = None, price = pr, category = cat,
      model_path = None, image_url = None, material = None, color = None,
      dimensions = [], in_stock = Some True, product_created_at = None\<rparr>"

definition sample_favorite :: "int \<Rightarrow> int \<Rightarrow> int \<Rightarrow> int \<Rightarrow> UserFavorite" where
  "sample_favorite i uid pid t =
     \<lparr>fav_id = i, fav_user_id = uid, fav_product_id = pid, added_at = t\<rparr>"

text \<open>One user, two products (a chair at 30 and a table at 20), the chair favorited.\<close>

definition sample_db :: database where
  "sample_db =
     \<lparr>users = [sample_user 1 ''a@x.com''],
      products = [sample_product 7 ''chair'' 30 (Some ''seating''),
                  sample_product 8 ''table'' 20 (Some [])],
      user_favorites = [sample_favorite 1 1 7 100],
      user_favorites_seq = 2\<rparr>"

text \<open>The sample store after the user has also favorited the table, at time 200.\<close>

definition sample_db2 :: database where
  "sample_db2 = sample_db\<lparr>user_favorites := [sample_favorite 1 1 7 100, sample_favorite 2 1 8 200],
                           user_favorites_seq := 3\<rparr>"

text \<open>A catalog of \<open>n\<close> products, numbered from 1, all of them favorites of user 1.\<close>

definition catalog_db :: "nat \<Rightarrow> database" where
  "catalog_db n =
     \<lparr>users = [sample_user 1 ''a@x.com''],
      products = map (\<lambda>i. sample_product (int i) ''item'' (real i) None) [1..<Suc n],
      user_favorites = map (\<lambda>i. sample_favorite (int i) 1 (int i) (int i)) [1..<Suc n],
      user_favorites_seq = int n + 1\<rparr>"


text \<open>An engine for the examples: rows in table order, strings compared by code point.\<close>

definition sample_engine :: engine where
  "sample_engine = \<lparr>scan = (\<lambda>rows. rows), collate = (\<lambda>a b. a \<le> b)\<rparr>"

text \<open>
  Python's \<^verbatim>\<open>int\<close> on a string whose characters have code points below 256:
  white space is stripped from both ends, a sign may follow, then decimal digits, with
  single underscores allowed between digits; \<open>None\<close> where \<^verbatim>\<open>int\<close> raises
  ValueError.
\<close>

definition py_isspace :: "char \<Rightarrow> bool" where
  "py_isspace c = ((of_char c :: nat) \<in> {9, 10, 11, 12, 13, 32, 133, 160})"

definition strip :: "string \<Rightarrow> string" where
  "strip s = rev (dropWhile py_isspace (rev (dropWhile py_isspace s)))"

definition digit_of :: "char \<Rightarrow> nat option" where
  "digit_of c =
     (let n = (of_char c :: nat) in if 48 \<le> n \<and> n \<le> 57 then Some (n - 48) else None)"

fun digits :: "nat \<Rightarrow> string \<Rightarrow> nat option" where
  "digits acc [] = None"
| "digits acc [c] = map_option (\<lambda>d. 10 * acc + d) (digit_of c)"
| "digits acc (c # c' # cs) =
     (case digit_of c of
        None \<Rightarrow> None
      | Some d \<Rightarrow> if c' = CHR ''_'' then digits (10 * acc + d) cs
                  else digits (10 * acc + d) (c' # cs))"

definition python_int :: "string \<Rightarrow> int option" where
  "python_int s =
     (case strip s of
        [] \<Rightarrow> None
      | c # cs \<Rightarrow>
          if c = CHR ''-'' then map_option (\<lambda>n. - int n) (digits 0 cs)
          else if c = CHR ''+'' then map_option int (digits 0 cs)
          else map_option int (digits 0 (c # cs)))"

section \<open>Evaluation and store lemmas\<close>

lemmas sample_defs = sample_db_def sample_user_def sample_product_def sample_favorite_def

lemmas store_defs = User_get_def Product_get_def favorite_first_def favorites_of_def
  insert_favorite_def delete_favorite_def delete_favorites_of_def

lemma favorite_first_None:
  "favorite_first db uid pid = None \<longleftrightarrow>
     (\<forall>f \<in> set (user_favorites db). \<not> (fav_user_id f = uid \<and> fav_product_id f = pid))"
  by (auto simp: favorite_first_def find_None_iff)

lemma insert_favorite_Inr:
  "insert_favorite db uid pid now = Inr (db', new) \<Longrightarrow>
     favorite_first db uid pid = None \<and>
     new = \<lparr>fav_id = user_favorites_seq db, fav_user_id = uid, fav_product_id = pid, added_at = now\<rparr> \<and>
     db' = db\<lparr>user_favorites := user_favorites db @ [new],
              user_favorites_seq := user_favorites_seq db + 1\<rparr>"
  by (auto simp: insert_favorite_def Let_def split: if_splits)

lemma add_to_favorite_cases:
  "snd (add_to_favorite db uid pid now) = db \<or>
   (favorite_first db uid pid = None \<and>
    snd (add_to_favorite db uid pid now) =
      db\<lparr>user_favorites := user_favorites db @
            [\<lparr>fav_id = user_favorites_seq db, fav_user_id = uid, fav_product_id = pid, added_at = now\<rparr>],
         user_favorites_seq := user_favorites_seq db + 1\<rparr>)"
  by (auto simp: add_to_favorite_def insert_favorite_def Let_def
           split: option.splits sum.splits store_error.splits if_splits)

lemma unique_add:
  "unique_user_product db \<Longrightarrow> unique_user_product (snd (add_to_favorite db uid pid now))"
  using add_to_favorite_cases [of db uid pid now]
  by (auto simp: unique_user_product_def favorite_first_None)

lemma unique_remove:
  "unique_user_product db \<Longrightarrow> unique_user_product (snd (remove_from_favorite db uid pid))"
  by (auto simp: unique_user_product_def remove_from_favorite_def delete_favorite_def
                 distinct_map_filter split: option.splits)

lemma unique_clear:
  "unique_user_product db \<Longrightarrow> unique_user_product (snd (clear_all_favorites db uid))"
  by (simp add: unique_user_product_def clear_all_favorites_def delete_favorites_of_def
                 distinct_map_filter Let_def)

lemma unique_apply_request:
  "unique_user_product db \<Longrightarrow> unique_user_product (apply_request db r)"
  by (cases r) (simp_all add: unique_add unique_remove unique_clear)

lemma unique_run:
  "unique_user_product db \<Longrightarrow> unique_user_product (run db reqs)"
  unfolding run_def
  by (induction reqs arbitrary: db) (simp_all add: unique_apply_request)

lemma distinct_map_count_le_1:
  "distinct (map k xs) \<Longrightarrow> length (filter (\<lambda>x. k x = v) xs) \<le> 1"
  by (induction xs) (auto simp: filter_empty_conv image_iff)

lemma unique_pair_count:
  assumes "unique_user_product db" shows "pair_count db uid pid \<le> 1"
proof -
  have "length (filter (\<lambda>f. (fav_user_id f, fav_product_id f) = (uid, pid)) (user_favorites db)) \<le> 1"
    using assms unfolding unique_user_product_def by (rule distinct_map_count_le_1)
  then show ?thesis by (simp add: pair_count_def)
qed

lemma foreign_keys_present:
  assumes "foreign_keys db" "favorite_first db uid pid \<noteq> None"
  shows "User_get db uid \<noteq> None \<and> Product_get db pid \<noteq> None"
proof -
  from assms(2) obtain f where "f \<in> set (user_favorites db)" "fav_user_id f = uid" "fav_product_id f = pid"
    by (auto simp: favorite_first_None)
  with assms(1) show ?thesis by (auto simp: foreign_keys_def list_all_iff)
qed

lemma add_conflict:
  "favorite_first db uid pid \<noteq> None \<Longrightarrow> snd (add_to_favorite db uid pid now) = db"
  by (auto simp: add_to_favorite_def split: option.splits)

lemma add_conflict_409:
  "favorite_first db uid pid \<noteq> None \<Longrightarrow> User_get db uid \<noteq> None \<Longrightarrow> Product_get db pid \<noteq> None \<Longrightarrow>
   add_to_favorite db uid pid now = ((Failure ''Product already in favorites'', 409), db)"
  by (auto simp: add_to_favorite_def split: option.splits)


section \<open>The uniqueness of a favorite (claim C1)\<close>

text \<open>
  Claim C1. At most one Favorite row exists for a pair (user id, product id): in a store
  that satisfies the uniqueness of the pair, every pair has at most one row; Add, Remove
  and ClearAll each preserve the uniqueness, and so does every sequence of them. An Add
  on a pair that is present leaves the store as it is (no second row, the existing row
  untouched) and, the foreign keys holding, answers 409 "Product already in favorites".
\<close>

theorem favorite_pair_unique:
  "(unique_user_product db \<longrightarrow>
      pair_count db uid pid \<le> 1 \<and>
      unique_user_product (snd (add_to_favorite db u p now)) \<and>
      unique_user_product (snd (remove_from_favorite db u p)) \<and>
      unique_user_product (snd (clear_all_favorites db u)) \<and>
      unique_user_product (run db reqs) \<and>
      pair_count (run db reqs) uid pid \<le> 1)
   \<and> (favorite_first db u p \<noteq> None \<longrightarrow>
        snd (add_to_favorite db u p now) = db \<and>
        pair_count (snd (add_to_favorite db u p now)) u p = pair_count db u p \<and>
        (foreign_keys db \<longrightarrow>
           fst (add_to_favorite db u p now) = (Failure ''Product already in favorites'', 409)))"
proof (intro conjI impI)
  assume uq: "unique_user_product db"
  show "pair_count db uid pid \<le> 1" using uq by (rule unique_pair_count)
  show "unique_user_product (snd (add_to_favorite db u p now))" using uq by (rule unique_add)
  show "unique_user_product (snd (remove_from_favorite db u p))" using uq by (rule unique_remove)
  show "unique_user_product (snd (clear_all_favorites db u))" using uq by (rule unique_clear)
  show "unique_user_product (run db reqs)" using uq by (rule unique_run)
  then show "pair_count (run db reqs) uid pid \<le> 1" by (rule unique_pair_count)
next
  assume present: "favorite_first db u p \<noteq> None"
  then show same: "snd (add_to_favorite db u p now) = db" by (rule add_conflict)
  then show "pair_count (snd (add_to_favorite db u p now)) u p = pair_count db u p" by simp
  assume "foreign_keys db"
  with present have "User_get db u \<noteq> None \<and> Product_get db p \<noteq> None"
    by (simp add: foreign_keys_present)
  with present show "fst (add_to_favorite db u p now) = (Failure ''Product already in favorites'', 409)"
    by (simp add: add_conflict_409)
qed


theorem favorite_pair_unique_witness:
  "unique_user_product sample_db \<and> foreign_keys sample_db \<and> favorite_first sample_db 1 7 \<noteq> None \<and>
   add_to_favorite sample_db 1 7 200 = ((Failure ''Product already in favorites'', 409), sample_db) \<and>
   pair_count (run sample_db [Add 1 7 200, Add 1 8 201, Remove 1 7, Add 1 7 202, ClearAll 1, Add 1 7 203]) 1 7 \<le> 1"
proof -
  have h1: "unique_user_product sample_db"
    by (simp add: unique_user_product_def sample_defs)
  have h2: "foreign_keys sample_db"
    by (simp add: foreign_keys_def sample_defs store_defs)
  have h3: "favorite_first sample_db 1 7 \<noteq> None"
    by (simp add: sample_defs store_defs)
  show ?thesis
    using h1 h2 h3
      favorite_pair_unique [of sample_db 1 7 1 7 200
        "[Add 1 7 200, Add 1 8 201, Remove 1 7, Add 1 7 202, ClearAll 1, Add 1 7 203]"]
    by (simp add: prod_eq_iff)
qed

section \<open>The outcomes of Add (claim C2)\<close>

text \<open>
  Claim C2. Add answers 404 "User not found" when the user does not exist, and 404
  "Product not found" when the user exists and the product does not; the two responses
  differ. When both exist and the pair is already a favorite it answers 409 and the store
  is unchanged. Otherwise it answers 201 with the new favorite, whose \<open>added_at\<close> is
  the current time, and the store has exactly this one row more.
\<close>

theorem add_to_favorite_outcomes:
  "(User_get db uid = None \<longrightarrow>
      add_to_favorite db uid pid now = ((Failure ''User not found'', 404), db))
   \<and> (User_get db uid \<noteq> None \<and> Product_get db pid = None \<longrightarrow>
      add_to_favorite db uid pid now = ((Failure ''Product not found'', 404), db))
   \<and> (User_get db uid = None \<and> User_get db2 uid2 \<noteq> None \<and> Product_get db2 pid2 = None \<longrightarrow>
      fst (add_to_favorite db uid pid now) \<noteq> fst (add_to_favorite db2 uid2 pid2 now2))
   \<and> (User_get db uid \<noteq> None \<and> Product_get db pid \<noteq> None \<and> favorite_first db uid pid \<noteq> None \<longrightarrow>
      add_to_favorite db uid pid now = ((Failure ''Product already in favorites'', 409), db))
   \<and> (User_get db uid \<noteq> None \<and> Product_get db pid \<noteq> None \<and> favorite_first db uid pid = None \<longrightarrow>
      (let new_favorite = \<lparr>fav_id = user_favorites_seq db, fav_user_id = uid,
                            fav_product_id = pid, added_at = now\<rparr>
       in add_to_favorite db uid pid now =
            ((Favorite_added ''Product added to favorites'' new_favorite (Product_get db pid), 201),
             db\<lparr>user_favorites := user_favorites db @ [new_favorite],
                user_favorites_seq := user_favorites_seq db + 1\<rparr>)
          \<and> length (user_favorites (snd (add_to_favorite db uid pid now)))
              = length (user_favorites db) + 1
          \<and> pair_count (snd (add_to_favorite db uid pid now)) uid pid = 1))"
proof (intro conjI impI)
  assume "User_get db uid = None"
  then show "add_to_favorite db uid pid now = ((Failure ''User not found'', 404), db)"
    by (simp add: add_to_favorite_def)
next
  assume "User_get db uid \<noteq> None \<and> Product_get db pid = None"
  then show "add_to_favorite db uid pid now = ((Failure ''Product not found'', 404), db)"
    by (auto simp: add_to_favorite_def)
next
  assume "User_get db uid = None \<and> User_get db2 uid2 \<noteq> None \<and> Product_get db2 pid2 = None"
  then show "fst (add_to_favorite db uid pid now) \<noteq> fst (add_to_favorite db2 uid2 pid2 now2)"
    by (auto simp: add_to_favorite_def)
next
  assume "User_get db uid \<noteq> None \<and> Product_get db pid \<noteq> None \<and> favorite_first db uid pid \<noteq> None"
  then show "add_to_favorite db uid pid now = ((Failure ''Product already in favorites'', 409), db)"
    by (simp add: add_conflict_409)
next
  assume h: "User_get db uid \<noteq> None \<and> Product_get db pid \<noteq> None \<and> favorite_first db uid pid = None"
  let ?new = "\<lparr>fav_id = user_favorites_seq db, fav_user_id = uid,
                            fav_product_id = pid, added_at = now\<rparr>"
  have eq: "add_to_favorite db uid pid now =
            ((Favorite_added ''Product added to favorites'' ?new (Product_get db pid), 201),
             db\<lparr>user_favorites := user_favorites db @ [?new],
                user_favorites_seq := user_favorites_seq db + 1\<rparr>)"
    using h by (auto simp: add_to_favorite_def insert_favorite_def Product_get_def Let_def)
  have "filter (\<lambda>f. fav_user_id f = uid \<and> fav_product_id f = pid) (user_favorites db) = []"
    using h by (auto simp: favorite_first_None filter_empty_conv)
  then have "pair_count (snd (add_to_favorite db uid pid now)) uid pid = 1"
    by (simp add: eq pair_count_def)
  then show "let new_favorite = ?new
       in add_to_favorite db uid pid now =
            ((Favorite_added ''Product added to favorites'' new_favorite (Product_get db pid), 201),
             db\<lparr>user_favorites := user_favorites db @ [new_favorite],
                user_favorites_seq := user_favorites_seq db + 1\<rparr>)
          \<and> length (user_favorites (snd (add_to_favorite db uid pid now)))
              = length (user_favorites db) + 1
          \<and> pair_count (snd (add_to_favorite db uid pid now)) uid pid = 1"
    using eq by (simp add: Let_def)
qed


theorem add_to_favorite_outcomes_witness:
  "add_to_favorite sample_db 2 7 200 = ((Failure ''User not found'', 404), sample_db) \<and>
   add_to_favorite sample_db 1 9 200 = ((Failure ''Product not found'', 404), sample_db) \<and>
   fst (add_to_favorite sample_db 2 7 200) \<noteq> fst (add_to_favorite sample_db 1 9 200) \<and>
   add_to_favorite sample_db 1 7 200 = ((Failure ''Product already in favorites'', 409), sample_db) \<and>
   fst (add_to_favorite sample_db 1 8 200) =
     (Favorite_added ''Product added to favorites'' (sample_favorite 2 1 8 200)
        (Some (sample_product 8 ''table'' 20 (Some []))), 201) \<and>
   user_favorites (snd (add_to_favorite sample_db 1 8 200)) =
     [sample_favorite 1 1 7 100, sample_favorite 2 1 8 200] \<and>
   pair_count (snd (add_to_favorite sample_db 1 8 200)) 1 8 = 1"
proof -
  have u2: "User_get sample_db 2 = None" and u1: "User_get sample_db 1 \<noteq> None"
    and p9: "Product_get sample_db 9 = None" and p7: "Product_get sample_db 7 \<noteq> None"
    and p8: "Product_get sample_db 8 = Some (sample_product 8 ''table'' 20 (Some []))"
    and f7: "favorite_first sample_db 1 7 \<noteq> None" and f8: "favorite_first sample_db 1 8 = None"
    by (simp_all add: sample_defs store_defs)
  have sq: "user_favorites_seq sample_db = 2"
    and fs: "user_favorites sample_db = [sample_favorite 1 1 7 100]"
    by (simp_all add: sample_db_def)
  show ?thesis
    using add_to_favorite_outcomes [of sample_db 2 7 200 sample_db 1 9 200]
      add_to_favorite_outcomes [of sample_db 1 9 200 sample_db 1 9 200]
      add_to_favorite_outcomes [of sample_db 1 7 200 sample_db 1 9 200]
      add_to_favorite_outcomes [of sample_db 1 8 200 sample_db 1 9 200]
    by (simp add: u2 u1 p9 p7 p8 f7 f8 sq fs Let_def sample_favorite_def pair_count_def)
qed

section \<open>Add, Remove and IsFavorite (claim C3)\<close>

lemma add_success_present:
  assumes "snd (fst (add_to_favorite db uid pid now)) = 201"
  shows "favorite_first (snd (add_to_favorite db uid pid now)) uid pid \<noteq> None"
proof -
  have "snd (add_to_favorite db uid pid now) =
      db\<lparr>user_favorites := user_favorites db @
            [\<lparr>fav_id = user_favorites_seq db, fav_user_id = uid, fav_product_id = pid, added_at = now\<rparr>],
         user_favorites_seq := user_favorites_seq db + 1\<rparr>"
    using assms
    by (auto simp: add_to_favorite_def insert_favorite_def Let_def
             split: option.splits sum.splits store_error.splits if_splits)
  then show ?thesis by (simp add: favorite_first_None)
qed

lemma remove_success_absent:
  assumes uq: "unique_user_product db"
    and ok: "snd (fst (remove_from_favorite db uid pid)) = 200"
  shows "favorite_first (snd (remove_from_favorite db uid pid)) uid pid = None"
proof -
  from ok obtain fav where fav: "favorite_first db uid pid = Some fav"
    by (auto simp: remove_from_favorite_def split: option.splits)
  then have mem: "fav \<in> set (user_favorites db)" "fav_user_id fav = uid" "fav_product_id fav = pid"
    by (auto simp: favorite_first_def find_Some_iff in_set_conv_nth)
  have inj: "inj_on (\<lambda>f. (fav_user_id f, fav_product_id f)) (set (user_favorites db))"
    using uq by (simp add: unique_user_product_def distinct_map)
  have "\<forall>f \<in> set (user_favorites db). fav_user_id f = uid \<and> fav_product_id f = pid \<longrightarrow> f = fav"
    using inj mem by (auto dest: inj_onD)
  then show ?thesis
    using fav by (auto simp: remove_from_favorite_def delete_favorite_def favorite_first_None)
qed

text \<open>
  Claim C3. After a successful Add (status 201) IsFavorite answers true for the pair;
  after a successful Remove (status 200), in a store with the uniqueness of the pair,
  IsFavorite answers false; Remove succeeds whenever the pair is present; and Remove on
  an absent pair answers 404 and leaves the store, and so the user's favorite count, as
  it was.
\<close>

theorem add_remove_is_favorite:
  "(snd (fst (add_to_favorite db uid pid now)) = 201 \<longrightarrow>
      is_favorite (snd (add_to_favorite db uid pid now)) uid pid = (Is_favorite True, 200))
   \<and> (unique_user_product db \<and> snd (fst (remove_from_favorite db uid pid)) = 200 \<longrightarrow>
      is_favorite (snd (remove_from_favorite db uid pid)) uid pid = (Is_favorite False, 200))
   \<and> (favorite_first db uid pid \<noteq> None \<longrightarrow> snd (fst (remove_from_favorite db uid pid)) = 200)
   \<and> (favorite_first db uid pid = None \<longrightarrow>
      remove_from_favorite db uid pid = ((Failure ''Product is not in favorites'', 404), db) \<and>
      length (favorites_of (snd (remove_from_favorite db uid pid)) uid) = length (favorites_of db uid) \<and>
      user_favorites (snd (remove_from_favorite db uid pid)) = user_favorites db)"
proof (intro conjI impI)
  assume "snd (fst (add_to_favorite db uid pid now)) = 201"
  then show "is_favorite (snd (add_to_favorite db uid pid now)) uid pid = (Is_favorite True, 200)"
    by (simp add: is_favorite_def add_success_present)
next
  assume "unique_user_product db \<and> snd (fst (remove_from_favorite db uid pid)) = 200"
  then show "is_favorite (snd (remove_from_favorite db uid pid)) uid pid = (Is_favorite False, 200)"
    by (simp add: is_favorite_def remove_success_absent)
next
  assume "favorite_first db uid pid \<noteq> None"
  then show "snd (fst (remove_from_favorite db uid pid)) = 200"
    by (auto simp: remove_from_favorite_def)
next
  assume absent: "favorite_first db uid pid = None"
  then show r: "remove_from_favorite db uid pid = ((Failure ''Product is not in favorites'', 404), db)"
    by (simp add: remove_from_favorite_def)
  show "length (favorites_of (snd (remove_from_favorite db uid pid)) uid) = length (favorites_of db uid)"
    by (simp add: r)
  show "user_favorites (snd (remove_from_favorite db uid pid)) = user_favorites db"
    by (simp add: r)
qed

theorem add_remove_is_favorite_witness:
  "snd (fst (add_to_favorite sample_db 1 8 200)) = 201 \<and>
   is_favorite (snd (add_to_favorite sample_db 1 8 200)) 1 8 = (Is_favorite True, 200) \<and>
   unique_user_product sample_db \<and> snd (fst (remove_from_favorite sample_db 1 7)) = 200 \<and>
   is_favorite (snd (remove_from_favorite sample_db 1 7)) 1 7 = (Is_favorite False, 200) \<and>
   favorite_first sample_db 1 8 = None \<and>
   remove_from_favorite sample_db 1 8 = ((Failure ''Product is not in favorites'', 404), sample_db)"
proof -
  have a: "snd (fst (add_to_favorite sample_db 1 8 200)) = 201"
    by (simp add: add_to_favorite_def sample_defs store_defs Let_def)
  have u: "unique_user_product sample_db"
    by (simp add: unique_user_product_def sample_defs)
  have f7: "favorite_first sample_db 1 7 \<noteq> None" and f8: "favorite_first sample_db 1 8 = None"
    by (simp_all add: sample_defs store_defs)
  show ?thesis
    using a u f7 f8 add_remove_is_favorite [of sample_db 1 8 200]
      add_remove_is_favorite [of sample_db 1 7 200]
    by simp
qed

section \<open>Lemmas on the favorites listing\<close>

lemma engine_ok_set: "engine_ok st \<Longrightarrow> set (scan st rows) = set rows"
  unfolding engine_ok_def by (metis mset_eq_setD)

lemma engine_ok_length: "engine_ok st \<Longrightarrow> length (scan st rows) = length rows"
  unfolding engine_ok_def by (metis mset_eq_length)

lemma sample_engine_ok: "engine_ok sample_engine"
  by (auto simp: engine_ok_def sample_engine_def)

lemma set_insert_by: "set (insert_by le x xs) = insert x (set xs)"
  by (induction xs) auto

lemma length_insert_by: "length (insert_by le x xs) = Suc (length xs)"
  by (induction xs) auto

lemma set_order_by: "set (order_by le xs) = set xs"
  by (induction xs) (simp_all add: set_insert_by)

lemma length_order_by: "length (order_by le xs) = length xs"
  by (induction xs) (simp_all add: length_insert_by)

lemma sorted_insert_by:
  assumes total: "\<And>x y. le x y \<or> le y x" and trans: "\<And>x y z. le x y \<Longrightarrow> le y z \<Longrightarrow> le x z"
  shows "sorted_wrt le xs \<Longrightarrow> sorted_wrt le (insert_by le x xs)"
proof (induction xs)
  case Nil
  then show ?case by simp
next
  case (Cons y ys)
  show ?case
  proof (cases "le x y")
    case True
    then have "\<forall>z \<in> set ys. le x z" using Cons.prems trans by auto
    with True Cons.prems show ?thesis by simp
  next
    case False
    then have "le y x" using total by blast
    with False Cons show ?thesis by (auto simp: set_insert_by)
  qed
qed

lemma sorted_order_by:
  assumes "\<And>x y. le x y \<or> le y x" and "\<And>x y z. le x y \<Longrightarrow> le y z \<Longrightarrow> le x z"
  shows "sorted_wrt le (order_by le xs)"
  by (induction xs) (simp_all add: sorted_insert_by [OF assms])

text \<open>Rows that the store produced in a sorted order stay as they are.\<close>

lemma order_by_sorted: "sorted_wrt le ys \<Longrightarrow> order_by le ys = ys"
proof (induction ys)
  case Nil
  then show ?case by simp
next
  case (Cons y ys)
  then have "order_by le (y # ys) = insert_by le y ys" by simp
  also have "\<dots> = y # ys" using Cons.prems by (cases ys) simp_all
  finally show ?case .
qed

lemma mset_insert_by: "mset (insert_by le x xs) = add_mset x (mset xs)"
  by (induction xs) auto

lemma mset_order_by: "mset (order_by le xs) = mset xs"
  by (induction xs) (simp_all add: mset_insert_by)

text \<open>Every sorted arrangement of the rows is the answer for some order of production.\<close>

lemma order_by_any_order:
  assumes "sorted_wrt le ys" "mset ys = mset xs"
  shows "\<exists>sc. mset (sc xs) = mset xs \<and> order_by le (sc xs) = ys"
  using assms by (intro exI [of _ "\<lambda>rows. ys"]) (simp add: order_by_sorted)

lemma join_Product_mem:
  "(f, p) \<in> set (join_Product db rows) \<Longrightarrow> f \<in> set rows \<and> Product_get db (fav_product_id f) = Some p"
  by (auto simp: join_Product_def List.map_filter_def)

lemma join_Product_all:
  "list_all (\<lambda>f. Product_get db (fav_product_id f) \<noteq> None) rows \<Longrightarrow>
   join_Product db rows = map (\<lambda>f. (f, the (Product_get db (fav_product_id f)))) rows"
  by (induction rows) (auto simp: join_Product_def List.map_filter_simps)

lemma length_join_Product:
  "list_all (\<lambda>f. Product_get db (fav_product_id f) \<noteq> None) rows \<Longrightarrow>
   length (join_Product db rows) = length rows"
  by (simp add: join_Product_all)

lemma foreign_keys_scan:
  assumes "foreign_keys db" "engine_ok st"
  shows "list_all (\<lambda>f. Product_get db (fav_product_id f) \<noteq> None) (scan st (favorites_of db uid))"
  using assms(1) engine_ok_set [OF assms(2), of "favorites_of db uid"]
  by (auto simp: foreign_keys_def favorites_of_def list_all_iff)

lemma set_favorites_query:
  assumes "engine_ok st"
  shows "set (favorites_query st db uid s) \<subseteq> set (favorites_of db uid)"
proof -
  have j: "fst ` set (order_by le (join_Product db (scan st (favorites_of db uid))))
             \<subseteq> set (favorites_of db uid)" for le
  proof
    fix f
    assume "f \<in> fst ` set (order_by le (join_Product db (scan st (favorites_of db uid))))"
    then obtain p where "(f, p) \<in> set (join_Product db (scan st (favorites_of db uid)))"
      unfolding set_order_by by force
    then have "f \<in> set (scan st (favorites_of db uid))"
      by (rule join_Product_mem [THEN conjunct1])
    then show "f \<in> set (favorites_of db uid)"
      by (simp only: engine_ok_set [OF assms])
  qed
  have n: "set (order_by le (scan st (favorites_of db uid))) = set (favorites_of db uid)" for le
    by (simp add: set_order_by engine_ok_set [OF assms])
  show ?thesis
    by (simp add: favorites_query_def Let_def j n)
qed

lemma favorites_query_product:
  assumes "foreign_keys db" "engine_ok st" "f \<in> set (favorites_query st db uid s)"
  shows "Product_get db (fav_product_id f) \<noteq> None"
  using assms(1) set_favorites_query [OF assms(2), of db uid s] assms(3)
  by (auto simp: foreign_keys_def favorites_of_def list_all_iff)

lemma length_favorites_query:
  assumes "foreign_keys db" "engine_ok st"
  shows "length (favorites_query st db uid s) = length (favorites_of db uid)"
  using length_join_Product [OF foreign_keys_scan [OF assms, of uid]]
    engine_ok_length [OF assms(2), of "favorites_of db uid"]
  by (simp add: favorites_query_def Let_def length_order_by)

lemma those_map_Some:
  "list_all (\<lambda>x. f x \<noteq> None) xs \<Longrightarrow> those (map f xs) = Some (map (\<lambda>x. the (f x)) xs)"
  by (induction xs) auto

lemma set_page_of: "set (page_of q p pp) \<subseteq> set q"
  by (auto simp: page_of_def dest: in_set_takeD in_set_dropD)

lemma clamp_page_ge: "1 \<le> clamp_page p"
  by (simp add: clamp_page_def)

lemma clamp_per_page_range: "1 \<le> clamp_per_page pp \<and> clamp_per_page pp \<le> 100"
  by (simp add: clamp_per_page_def Let_def)

text \<open>The page query of the route, whose page and per_page are already clamped.\<close>

lemma paginate_clamped:
  "paginate q (clamp_page p) (clamp_per_page pp) =
     (if bigint_max < (clamp_page p - 1) * clamp_per_page pp
      then Inl (DataError ''bigint out of range'')
      else Inr \<lparr>items = page_of q (clamp_page p) (clamp_per_page pp),
                total = length q,
                pages = (if length q = 0 then 0
                         else \<lceil>real (length q) / real_of_int (clamp_per_page pp)\<rceil>)\<rparr>)"
  using clamp_page_ge [of p] clamp_per_page_range [of pp]
  by (simp add: paginate_def Let_def bigint_max_def)

lemma list_favorites_error:
  assumes "bigint_max < (clamp_page p - 1) * clamp_per_page pp"
  shows "list_favorites st db uid p pp s = (Failure ''Error: bigint out of range'', 500)"
  using assms by (simp add: list_favorites_def Let_def paginate_clamped)

lemma list_favorites_ok:
  assumes "foreign_keys db" "engine_ok st" "(clamp_page p - 1) * clamp_per_page pp \<le> bigint_max"
  shows "list_favorites st db uid p pp s =
     (Favorites \<lparr>count = length (favorites_of db uid), page = clamp_page p,
                 per_page = clamp_per_page pp,
                 total_pages = (if length (favorites_of db uid) = 0 then 0
                    else \<lceil>real (length (favorites_of db uid)) / real_of_int (clamp_per_page pp)\<rceil>),
                 favorites = map (\<lambda>f. the (Product_get db (fav_product_id f)))
                   (page_of (favorites_query st db uid s) (clamp_page p) (clamp_per_page pp))\<rparr>, 200)"
proof -
  have "list_all (\<lambda>f. Product_get db (fav_product_id f) \<noteq> None)
          (page_of (favorites_query st db uid s) (clamp_page p) (clamp_per_page pp))"
    using set_page_of [of "favorites_query st db uid s" "clamp_page p" "clamp_per_page pp"]
      favorites_query_product [OF assms(1,2), of _ uid s]
    unfolding list_all_iff by blast
  from those_map_Some [OF this] assms(3) show ?thesis
    by (simp add: list_favorites_def Let_def paginate_clamped length_favorites_query [OF assms(1,2)])
qed

lemma sample_foreign_keys: "foreign_keys sample_db"
  by (simp add: foreign_keys_def sample_defs store_defs)

section \<open>Normalisation of page and per_page (claim C4)\<close>

text \<open>
  The clamps are silent, but List does not succeed for every request that they
  normalise. With per_page 0, which is treated as 12, and page \<open>10\<^sup>1\<^sup>8\<close> the offset of
  the page query is beyond \<^verbatim>\<open>bigint\<close>: the store refuses the query and List answers
  500.
\<close>

theorem list_favorites_clamps_counterexample:
  "clamp_per_page 0 = 12 \<and>
   snd (list_favorites sample_engine sample_db 1 1000000000000000000 0 ''name'') = 500"
  by (simp add: list_favorites_error clamp_page_def clamp_per_page_def bigint_max_def)

text \<open>
  Claim C4, amended. A page below 1 is treated as 1, a per_page below 1 as 12 and a
  per_page above 100 as 100, without an error of their own. In a store whose foreign keys
  hold, List succeeds with the clamped values whenever the offset
  \<open>(page - 1) * per_page\<close> that they give is at most \<open>2\<^sup>6\<^sup>3 - 1\<close>: the response is a
  200 page that reports the clamped page and per_page and holds the products of the rows
  that these select from the ordered query. That is so for every page below 1, whatever
  per_page is. Beyond that offset List answers 500.
\<close>

theorem list_favorites_clamps:
  assumes "foreign_keys db" and "engine_ok st"
  shows "clamp_page p = (if p < 1 then 1 else p) \<and>
         clamp_per_page pp = (if pp < 1 then 12 else if pp > 100 then 100 else pp) \<and>
         ((clamp_page p - 1) * clamp_per_page pp \<le> bigint_max \<longrightarrow>
            (\<exists>fp. list_favorites st db uid p pp s = (Favorites fp, 200) \<and>
                  page fp = clamp_page p \<and> per_page fp = clamp_per_page pp \<and>
                  favorites fp =
                    map (\<lambda>f. the (Product_get db (fav_product_id f)))
                      (page_of (favorites_query st db uid s) (page fp) (per_page fp)))) \<and>
         (p < 1 \<longrightarrow> (clamp_page p - 1) * clamp_per_page pp \<le> bigint_max) \<and>
         (bigint_max < (clamp_page p - 1) * clamp_per_page pp \<longrightarrow>
            snd (list_favorites st db uid p pp s) = 500)"
proof (intro conjI impI)
  show "clamp_page p = (if p < 1 then 1 else p)"
    by (simp add: clamp_page_def)
  show "clamp_per_page pp = (if pp < 1 then 12 else if pp > 100 then 100 else pp)"
    by (simp add: clamp_per_page_def Let_def)
next
  assume "(clamp_page p - 1) * clamp_per_page pp \<le> bigint_max"
  from list_favorites_ok [OF assms this, of uid s]
  show "\<exists>fp. list_favorites st db uid p pp s = (Favorites fp, 200) \<and>
          page fp = clamp_page p \<and> per_page fp = clamp_per_page pp \<and>
          favorites fp =
            map (\<lambda>f. the (Product_get db (fav_product_id f)))
              (page_of (favorites_query st db uid s) (page fp) (per_page fp))"
    by simp
next
  assume "p < 1"
  then show "(clamp_page p - 1) * clamp_per_page pp \<le> bigint_max"
    by (simp add: clamp_page_def bigint_max_def)
next
  assume "bigint_max < (clamp_page p - 1) * clamp_per_page pp"
  then show "snd (list_favorites st db uid p pp s) = 500"
    by (simp add: list_favorites_error)
qed

theorem list_favorites_clamps_witness:
  "foreign_keys sample_db \<and> engine_ok sample_engine \<and>
   (\<exists>fp. list_favorites sample_engine sample_db 1 0 500 ''name'' = (Favorites fp, 200) \<and>
          page fp = 1 \<and> per_page fp = 100) \<and>
   (\<exists>fp. list_favorites sample_engine sample_db 1 (- 3) 0 ''name'' = (Favorites fp, 200) \<and>
          page fp = 1 \<and> per_page fp = 12) \<and>
   snd (list_favorites sample_engine sample_db 1 768614336404564652 0 ''name'') = 500"
proof -
  note th = list_favorites_clamps [OF sample_foreign_keys sample_engine_ok]
  have a: "\<exists>fp. list_favorites sample_engine sample_db 1 0 500 ''name'' = (Favorites fp, 200) \<and>
          page fp = 1 \<and> per_page fp = 100"
    using th [of 0 500 1 "''name''"] by (auto simp: bigint_max_def clamp_page_def clamp_per_page_def)
  have b: "\<exists>fp. list_favorites sample_engine sample_db 1 (- 3) 0 ''name'' = (Favorites fp, 200) \<and>
          page fp = 1 \<and> per_page fp = 12"
    using th [of "- 3" 0 1 "''name''"] by (auto simp: bigint_max_def clamp_page_def clamp_per_page_def)
  have c: "snd (list_favorites sample_engine sample_db 1 768614336404564652 0 ''name'') = 500"
    using th [of 768614336404564652 0 1 "''name''"]
    by (simp add: bigint_max_def clamp_page_def clamp_per_page_def)
  show ?thesis
    using a b c sample_foreign_keys sample_engine_ok by blast
qed

section \<open>The order of the listing (claim C5)\<close>

lemma sorted_joined:
  assumes total: "\<And>x y. le x y \<or> le y x" and trans: "\<And>x y z. le x y \<Longrightarrow> le y z \<Longrightarrow> le x z"
  shows "sorted_wrt (\<lambda>a b. le (the (Product_get db (fav_product_id a)))
                            (the (Product_get db (fav_product_id b))))
           (map fst (order_by (\<lambda>a b. le (snd a) (snd b)) (join_Product db rows)))"
proof -
  let ?xs = "order_by (\<lambda>a b. le (snd a) (snd b)) (join_Product db rows)"
  have s: "sorted_wrt (\<lambda>a b. le (snd a) (snd b)) ?xs"
  proof (rule sorted_order_by)
    show "le (snd x) (snd y) \<or> le (snd y) (snd x)" for x y :: "UserFavorite \<times> Product"
      by (rule total)
    show "le (snd x) (snd y) \<Longrightarrow> le (snd y) (snd z) \<Longrightarrow> le (snd x) (snd z)"
      for x y z :: "UserFavorite \<times> Product"
      by (rule trans)
  qed
  have m: "the (Product_get db (fav_product_id (fst x))) = snd x" if "x \<in> set ?xs" for x
  proof -
    from that have "(fst x, snd x) \<in> set (join_Product db rows)"
      by (simp add: set_order_by)
    from join_Product_mem [OF this] show ?thesis by simp
  qed
  have "sorted_wrt (\<lambda>x y. le (the (Product_get db (fav_product_id (fst x))))
                           (the (Product_get db (fav_product_id (fst y))))) ?xs"
    using s by (rule sorted_wrt_mono_rel [rotated]) (simp add: m)
  then show ?thesis by (simp add: sorted_wrt_map)
qed

lemma query_price_asc:
  "sorted_wrt (\<lambda>a b. price (the (Product_get db (fav_product_id a)))
                      \<le> price (the (Product_get db (fav_product_id b))))
     (favorites_query st db uid ''price_asc'')"
proof -
  have "sorted_wrt (\<lambda>a b. price (the (Product_get db (fav_product_id a)))
                      \<le> price (the (Product_get db (fav_product_id b))))
     (map fst (order_by (\<lambda>a b. price (snd a) \<le> price (snd b))
                 (join_Product db (scan st (favorites_of db uid)))))"
    by (rule sorted_joined [of "\<lambda>a b. price a \<le> price b"]) auto
  then show ?thesis by (simp add: favorites_query_def Let_def)
qed

lemma query_price_desc:
  "sorted_wrt (\<lambda>a b. price (the (Product_get db (fav_product_id a)))
                      \<ge> price (the (Product_get db (fav_product_id b))))
     (favorites_query st db uid ''price_desc'')"
proof -
  have "sorted_wrt (\<lambda>a b. price (the (Product_get db (fav_product_id a)))
                      \<ge> price (the (Product_get db (fav_product_id b))))
     (map fst (order_by (\<lambda>a b. price (snd a) \<ge> price (snd b))
                 (join_Product db (scan st (favorites_of db uid)))))"
    by (rule sorted_joined [of "\<lambda>a b. price a \<ge> price b"]) auto
  then show ?thesis by (simp add: favorites_query_def Let_def)
qed

lemma query_newest:
  "sorted_wrt (\<lambda>a b. added_at a \<ge> added_at b) (favorites_query st db uid ''newest'')"
proof -
  have "sorted_wrt (\<lambda>a b. added_at a \<ge> added_at b)
          (order_by (\<lambda>a b. added_at a \<ge> added_at b) (scan st (favorites_of db uid)))"
    by (rule sorted_order_by) auto
  then show ?thesis by (simp add: favorites_query_def Let_def)
qed

lemma query_name:
  assumes "engine_ok st" "s \<noteq> ''price_asc''" "s \<noteq> ''price_desc''" "s \<noteq> ''newest''"
  shows "sorted_wrt (\<lambda>a b. collate st (name (the (Product_get db (fav_product_id a))))
                                   (name (the (Product_get db (fav_product_id b)))))
     (favorites_query st db uid s)"
proof -
  have total: "collate st a b \<or> collate st b a" for a b
    using assms(1) unfolding engine_ok_def by blast
  have trans: "collate st a b \<Longrightarrow> collate st b c \<Longrightarrow> collate st a c" for a b c
    using assms(1) unfolding engine_ok_def by blast
  have "sorted_wrt (\<lambda>a b. collate st (name (the (Product_get db (fav_product_id a))))
                                   (name (the (Product_get db (fav_product_id b)))))
     (map fst (order_by (\<lambda>a b. collate st (name (snd a)) (name (snd b)))
                 (join_Product db (scan st (favorites_of db uid)))))"
  proof (rule sorted_joined [of "\<lambda>a b. collate st (name a) (name b)"])
    show "collate st (name x) (name y) \<or> collate st (name y) (name x)" for x y :: Product
      by (rule total)
    show "collate st (name x) (name y) \<Longrightarrow> collate st (name y) (name z) \<Longrightarrow>
          collate st (name x) (name z)" for x y z :: Product
      by (rule trans)
  qed
  with assms(2-4) show ?thesis by (simp add: favorites_query_def Let_def)
qed

lemma sorted_page_of: "sorted_wrt R q \<Longrightarrow> sorted_wrt R (page_of q p pp)"
  by (simp add: page_of_def sorted_wrt_take sorted_wrt_drop)

text \<open>A response of List that is a page is the one of \<open>list_favorites_ok\<close>.\<close>

lemma list_favorites_page:
  assumes "foreign_keys db" "engine_ok st" "list_favorites st db uid p pp s = (Favorites fp, c)"
  shows "c = 200 \<and> (clamp_page p - 1) * clamp_per_page pp \<le> bigint_max \<and>
         count fp = length (favorites_of db uid) \<and>
         page fp = clamp_page p \<and> per_page fp = clamp_per_page pp \<and>
         total_pages fp = (if length (favorites_of db uid) = 0 then 0
            else \<lceil>real (length (favorites_of db uid)) / real_of_int (clamp_per_page pp)\<rceil>) \<and>
         favorites fp = map (\<lambda>f. the (Product_get db (fav_product_id f)))
           (page_of (favorites_query st db uid s) (clamp_page p) (clamp_per_page pp))"
proof (cases "(clamp_page p - 1) * clamp_per_page pp \<le> bigint_max")
  case True
  from list_favorites_ok [OF assms(1,2) True, of uid s] assms(3) True show ?thesis
    by auto
next
  case False
  then have "bigint_max < (clamp_page p - 1) * clamp_per_page pp" by simp
  from list_favorites_error [OF this, of st db uid s] assms(3) show ?thesis
    by simp
qed

lemma sample2_foreign_keys: "foreign_keys sample_db2"
  by (simp add: foreign_keys_def sample_db2_def sample_defs store_defs)

lemma sample2_chair: "Product_get sample_db2 7 = Some (sample_product 7 ''chair'' 30 (Some ''seating''))"
  and sample2_table: "Product_get sample_db2 8 = Some (sample_product 8 ''table'' 20 (Some []))"
  by (simp_all add: sample_db2_def sample_db_def store_defs sample_product_def)

lemma sample2_favorites:
  "favorites_of sample_db2 1 = [sample_favorite 1 1 7 100, sample_favorite 2 1 8 200]"
  by (simp add: sample_db2_def sample_db_def favorites_of_def sample_favorite_def)

lemma sample2_join:
  "join_Product sample_db2 [sample_favorite 1 1 7 100, sample_favorite 2 1 8 200] =
     [(sample_favorite 1 1 7 100, sample_product 7 ''chair'' 30 (Some ''seating'')),
      (sample_favorite 2 1 8 200, sample_product 8 ''table'' 20 (Some []))]"
  by (simp add: join_Product_def sample2_chair sample2_table)
     (simp add: sample_favorite_def sample2_chair sample2_table)

lemma sample2_pages:
  "page_of (favorites_query sample_engine sample_db2 1 ''price_asc'') (clamp_page 1) (clamp_per_page 12)
     = [sample_favorite 2 1 8 200, sample_favorite 1 1 7 100]"
  "page_of (favorites_query sample_engine sample_db2 1 ''price_desc'') (clamp_page 1) (clamp_per_page 12)
     = [sample_favorite 1 1 7 100, sample_favorite 2 1 8 200]"
  "page_of (favorites_query sample_engine sample_db2 1 ''newest'') (clamp_page 1) (clamp_per_page 12)
     = [sample_favorite 2 1 8 200, sample_favorite 1 1 7 100]"
  "page_of (favorites_query sample_engine sample_db2 1 ''name'') (clamp_page 1) (clamp_per_page 12)
     = [sample_favorite 1 1 7 100, sample_favorite 2 1 8 200]"
  "page_of (favorites_query sample_engine sample_db2 1 ''rating'') (clamp_page 1) (clamp_per_page 12)
     = [sample_favorite 1 1 7 100, sample_favorite 2 1 8 200]"
  by (simp_all add: page_of_def clamp_page_def clamp_per_page_def favorites_query_def
        sample_engine_def sample2_favorites sample2_join)
     (simp_all add: sample_product_def sample_favorite_def)

lemma sample2_products:
  "the (Product_get sample_db2 (fav_product_id (sample_favorite 1 1 7 100))) =
     sample_product 7 ''chair'' 30 (Some ''seating'')"
  "the (Product_get sample_db2 (fav_product_id (sample_favorite 2 1 8 200))) =
     sample_product 8 ''table'' 20 (Some [])"
  by (simp_all add: sample_favorite_def sample2_chair sample2_table)

text \<open>
  Claim C5. In a store whose foreign keys hold, List answers with a page whenever the
  store accepts the offset, and the items of every page that List returns are in the
  order of the request: the products in non-decreasing order of price for
  \<open>price_asc\<close>, in non-increasing order of price for \<open>price_desc\<close>, the favorites that
  the products belong to in non-increasing order of \<open>added_at\<close> for \<open>newest\<close>, and the
  products in ascending order of name, under the collation of the database, for every
  other value of \<open>sort_by\<close>, of which \<open>name\<close>, the default of the parameter, is one.
\<close>

theorem list_favorites_sorted:
  assumes "foreign_keys db" and "engine_ok st"
  shows "((clamp_page p - 1) * clamp_per_page pp \<le> bigint_max \<longrightarrow>
            (\<exists>fp. list_favorites st db uid p pp s = (Favorites fp, 200))) \<and>
         (\<forall>fp c. list_favorites st db uid p pp s = (Favorites fp, c) \<longrightarrow>
            favorites fp = map (\<lambda>f. the (Product_get db (fav_product_id f)))
              (page_of (favorites_query st db uid s) (clamp_page p) (clamp_per_page pp)) \<and>
            (s = ''price_asc'' \<longrightarrow> sorted_wrt (\<lambda>a b. price a \<le> price b) (favorites fp)) \<and>
            (s = ''price_desc'' \<longrightarrow> sorted_wrt (\<lambda>a b. price a \<ge> price b) (favorites fp)) \<and>
            (s = ''newest'' \<longrightarrow>
               sorted_wrt (\<lambda>a b. added_at a \<ge> added_at b)
                 (page_of (favorites_query st db uid s) (clamp_page p) (clamp_per_page pp))) \<and>
            (s \<noteq> ''price_asc'' \<and> s \<noteq> ''price_desc'' \<and> s \<noteq> ''newest'' \<longrightarrow>
               sorted_wrt (\<lambda>a b. collate st (name a) (name b)) (favorites fp))) \<and>
         (map_of args ''sort_by'' = None \<longrightarrow>
            get_my_favorites py_int st db uid args =
              list_favorites st db uid (args_get args ''page'' 1 py_int)
                (args_get args ''per_page'' 12 py_int) ''name'')"
proof (intro conjI allI impI)
  let ?prod = "\<lambda>f. the (Product_get db (fav_product_id f))"
  let ?rows = "page_of (favorites_query st db uid s) (clamp_page p) (clamp_per_page pp)"
  {
    assume "(clamp_page p - 1) * clamp_per_page pp \<le> bigint_max"
    from list_favorites_ok [OF assms this, of uid s]
    show "\<exists>fp. list_favorites st db uid p pp s = (Favorites fp, 200)"
      by simp
  }
  {
    assume "map_of args ''sort_by'' = None"
    then show "get_my_favorites py_int st db uid args =
              list_favorites st db uid (args_get args ''page'' 1 py_int)
                (args_get args ''per_page'' 12 py_int) ''name''"
      by (simp add: get_my_favorites_def args_get_def)
  }
  fix fp c
  assume e: "list_favorites st db uid p pp s = (Favorites fp, c)"
  from list_favorites_page [OF assms e]
  show f: "favorites fp = map ?prod ?rows"
    by blast
  {
    assume s: "s = ''price_asc''"
    have "sorted_wrt (\<lambda>a b. price (?prod a) \<le> price (?prod b)) ?rows"
      unfolding s by (rule sorted_page_of [OF query_price_asc])
    then show "sorted_wrt (\<lambda>a b. price a \<le> price b) (favorites fp)"
      by (simp add: f sorted_wrt_map)
  }
  {
    assume s: "s = ''price_desc''"
    have "sorted_wrt (\<lambda>a b. price (?prod a) \<ge> price (?prod b)) ?rows"
      unfolding s by (rule sorted_page_of [OF query_price_desc])
    then show "sorted_wrt (\<lambda>a b. price a \<ge> price b) (favorites fp)"
      by (simp add: f sorted_wrt_map)
  }
  {
    assume s: "s = ''newest''"
    show "sorted_wrt (\<lambda>a b. added_at a \<ge> added_at b) ?rows"
      unfolding s by (rule sorted_page_of [OF query_newest])
  }
  {
    assume "s \<noteq> ''price_asc'' \<and> s \<noteq> ''price_desc'' \<and> s \<noteq> ''newest''"
    then have "sorted_wrt (\<lambda>a b. collate st (name (?prod a)) (name (?prod b))) ?rows"
      by (intro sorted_page_of query_name [OF assms(2)]) simp_all
    then show "sorted_wrt (\<lambda>a b. collate st (name a) (name b)) (favorites fp)"
      by (simp add: f sorted_wrt_map)
  }
qed

theorem list_favorites_sorted_witness:
  "foreign_keys sample_db2 \<and> engine_ok sample_engine \<and>
   (\<exists>fp. list_favorites sample_engine sample_db2 1 1 12 ''price_asc'' = (Favorites fp, 200) \<and>
          map price (favorites fp) = [20, 30] \<and>
          sorted_wrt (\<lambda>a b. price a \<le> price b) (favorites fp)) \<and>
   (\<exists>fp. list_favorites sample_engine sample_db2 1 1 12 ''price_desc'' = (Favorites fp, 200) \<and>
          map price (favorites fp) = [30, 20] \<and>
          sorted_wrt (\<lambda>a b. price a \<ge> price b) (favorites fp)) \<and>
   (\<exists>fp. list_favorites sample_engine sample_db2 1 1 12 ''newest'' = (Favorites fp, 200) \<and>
          map name (favorites fp) = [''table'', ''chair'']) \<and>
   (\<exists>fp. list_favorites sample_engine sample_db2 1 1 12 ''rating'' = (Favorites fp, 200) \<and>
          map name (favorites fp) = [''chair'', ''table''] \<and>
          sorted_wrt (\<lambda>a b. collate sample_engine (name a) (name b)) (favorites fp))"
proof -
  note th = list_favorites_sorted [OF sample2_foreign_keys sample_engine_ok, of 1 12 1]
  note ex = th [THEN conjunct1, rule_format]
  note pg = th [THEN conjunct2, THEN conjunct1, rule_format]
  have off: "(clamp_page 1 - 1) * clamp_per_page 12 \<le> bigint_max"
    by (simp add: clamp_page_def bigint_max_def)
  have a: "\<exists>fp. list_favorites sample_engine sample_db2 1 1 12 ''price_asc'' = (Favorites fp, 200) \<and>
          map price (favorites fp) = [20, 30] \<and>
          sorted_wrt (\<lambda>a b. price a \<le> price b) (favorites fp)"
  proof -
    from ex [OF off, of "''price_asc''"] obtain fp
      where e: "list_favorites sample_engine sample_db2 1 1 12 ''price_asc'' = (Favorites fp, 200)"
      by (rule exE)
    note r = pg [OF e]
    note f = r [THEN conjunct1]
    have s: "sorted_wrt (\<lambda>a b. price a \<le> price b) (favorites fp)"
      by (rule r [THEN conjunct2, THEN conjunct1, THEN mp]) simp
    have m: "map price (favorites fp) = [20, 30]"
      by (simp add: f sample2_pages sample2_products) (simp add: sample_product_def)
    from e m s show ?thesis by (intro exI [of _ fp] conjI)
  qed
  have b: "\<exists>fp. list_favorites sample_engine sample_db2 1 1 12 ''price_desc'' = (Favorites fp, 200) \<and>
          map price (favorites fp) = [30, 20] \<and>
          sorted_wrt (\<lambda>a b. price a \<ge> price b) (favorites fp)"
  proof -
    from ex [OF off, of "''price_desc''"] obtain fp
      where e: "list_favorites sample_engine sample_db2 1 1 12 ''price_desc'' = (Favorites fp, 200)"
      by (rule exE)
    note r = pg [OF e]
    note f = r [THEN conjunct1]
    have s: "sorted_wrt (\<lambda>a b. price a \<ge> price b) (favorites fp)"
      by (rule r [THEN conjunct2, THEN conjunct2, THEN conjunct1, THEN mp]) simp
    have m: "map price (favorites fp) = [30, 20]"
      by (simp add: f sample2_pages sample2_products) (simp add: sample_product_def)
    from e m s show ?thesis by (intro exI [of _ fp] conjI)
  qed
  have c: "\<exists>fp. list_favorites sample_engine sample_db2 1 1 12 ''newest'' = (Favorites fp, 200) \<and>
          map name (favorites fp) = [''table'', ''chair'']"
  proof -
    from ex [OF off, of "''newest''"] obtain fp
      where e: "list_favorites sample_engine sample_db2 1 1 12 ''newest'' = (Favorites fp, 200)"
      by (rule exE)
    note r = pg [OF e]
    note f = r [THEN conjunct1]
    have m: "map name (favorites fp) = [''table'', ''chair'']"
      by (simp add: f sample2_pages sample2_products) (simp add: sample_product_def)
    from e m show ?thesis by (intro exI [of _ fp] conjI)
  qed
  have d: "\<exists>fp. list_favorites sample_engine sample_db2 1 1 12 ''rating'' = (Favorites fp, 200) \<and>
          map name (favorites fp) = [''chair'', ''table''] \<and>
          sorted_wrt (\<lambda>a b. collate sample_engine (name a) (name b)) (favorites fp)"
  proof -
    from ex [OF off, of "''rating''"] obtain fp
      where e: "list_favorites sample_engine sample_db2 1 1 12 ''rating'' = (Favorites fp, 200)"
      by (rule exE)
    note r = pg [OF e]
    note f = r [THEN conjunct1]
    have s: "sorted_wrt (\<lambda>a b. collate sample_engine (name a) (name b)) (favorites fp)"
      by (rule r [THEN conjunct2, THEN conjunct2, THEN conjunct2, THEN conjunct2, THEN mp]) simp
    have m: "map name (favorites fp) = [''chair'', ''table'']"
      by (simp add: f sample2_pages sample2_products) (simp add: sample_product_def)
    from e m s show ?thesis by (intro exI [of _ fp] conjI)
  qed
  from sample2_foreign_keys sample_engine_ok a b c d show ?thesis
    by (intro conjI)
qed

section \<open>Pagination (claim C6)\<close>

lemma length_page_of:
  "length (page_of q p pp) = min (nat pp) (length q - nat ((p - 1) * pp))"
  by (simp add: page_of_def)

lemma pages_bounds:
  assumes "1 \<le> pp"
  shows "int N \<le> \<lceil>real N / real_of_int pp\<rceil> * pp \<and> (\<lceil>real N / real_of_int pp\<rceil> - 1) * pp < int N"
proof -
  define q where "q = - int N div pp"
  define r where "r = - int N mod pp"
  have c: "\<lceil>real N / real_of_int pp\<rceil> = - q"
    using ceiling_divide_eq_div [of "int N" pp] by (simp add: q_def)
  have e: "q * pp + r = - int N"
    by (simp add: q_def r_def)
  have r0: "0 \<le> r" and r1: "r < pp"
    using assms by (simp_all add: r_def)
  have m1: "(- q) * pp = - (q * pp)" and m2: "(- q - 1) * pp = - (q * pp) - pp"
    by (simp_all add: algebra_simps)
  show ?thesis
    unfolding c m1 m2 using e r0 r1 by linarith
qed

lemma page_past_end:
  assumes "int N \<le> k * pp" "k < p" "1 \<le> pp"
  shows "N - nat ((p - 1) * pp) = 0"
proof -
  have "k * pp \<le> (p - 1) * pp"
    using assms(2,3) by (simp add: mult_right_mono)
  with assms(1) have "N \<le> nat ((p - 1) * pp)" by linarith
  then show ?thesis by simp
qed

lemma list_favorites_total:
  assumes "foreign_keys db" "engine_ok st" "length (favorites_of db uid) = N"
    "(clamp_page p - 1) * clamp_per_page pp \<le> bigint_max"
  shows "\<exists>fp. list_favorites st db uid p pp s = (Favorites fp, 200) \<and>
           count fp = N \<and> page fp = clamp_page p \<and> per_page fp = clamp_per_page pp \<and>
           total_pages fp = (if N = 0 then 0 else \<lceil>real N / real_of_int (clamp_per_page pp)\<rceil>) \<and>
           favorites fp = map (\<lambda>f. the (Product_get db (fav_product_id f)))
             (page_of (favorites_query st db uid s) (clamp_page p) (clamp_per_page pp)) \<and>
           length (favorites fp) =
             min (nat (clamp_per_page pp)) (N - nat ((clamp_page p - 1) * clamp_per_page pp))"
  using list_favorites_ok [OF assms(1,2,4), of uid s] assms(3)
    length_favorites_query [OF assms(1,2), of uid s]
  by (simp add: length_page_of)

lemma catalog_foreign_keys: "foreign_keys (catalog_db n)"
proof -
  have u: "User_get (catalog_db n) 1 \<noteq> None"
    by (simp add: User_get_def catalog_db_def sample_user_def)
  have p: "Product_get (catalog_db n) (int i) \<noteq> None" if "i \<in> set [1..<Suc n]" for i
  proof -
    have "sample_product (int i) ''item'' (real i) None
            \<in> (\<lambda>i. sample_product (int i) ''item'' (real i) None) ` set [1..<Suc n]"
      using that by (rule imageI)
    then have "sample_product (int i) ''item'' (real i) None \<in> set (products (catalog_db n))"
      by (simp add: catalog_db_def del: upt_Suc set_upt)
    moreover have "product_id (sample_product (int i) ''item'' (real i) None) = int i"
      by (simp add: sample_product_def)
    ultimately show ?thesis
      unfolding Product_get_def find_None_iff by blast
  qed
  have uf: "user_favorites (catalog_db n) =
              map (\<lambda>i. sample_favorite (int i) 1 (int i) (int i)) [1..<Suc n]"
    by (simp add: catalog_db_def)
  show ?thesis
    unfolding foreign_keys_def uf list_all_iff
  proof
    fix f
    assume "f \<in> set (map (\<lambda>i. sample_favorite (int i) 1 (int i) (int i)) [1..<Suc n])"
    then obtain i where i: "i \<in> set [1..<Suc n]" and f: "f = sample_favorite (int i) 1 (int i) (int i)"
      by (auto simp del: upt_Suc)
    show "User_get (catalog_db n) (fav_user_id f) \<noteq> None \<and>
          Product_get (catalog_db n) (fav_product_id f) \<noteq> None"
      using u p [OF i] by (simp add: f sample_favorite_def)
  qed
qed

lemma catalog_length: "length (favorites_of (catalog_db n) 1) = n"
  by (simp add: favorites_of_def catalog_db_def sample_favorite_def)

text \<open>
  A page past the end is not always an empty page: for a user with 25 favorites, page
  768614336404564653 with per_page 12 has an offset beyond \<^verbatim>\<open>bigint\<close>, and List
  answers 500 instead of a page with the total.
\<close>

theorem list_favorites_pagination_counterexample:
  "length (favorites_of (catalog_db 25) 1) = 25 \<and>
   snd (list_favorites sample_engine (catalog_db 25) 1 768614336404564653 12 ''name'') = 500"
  by (simp add: catalog_length list_favorites_error clamp_page_def clamp_per_page_def
                bigint_max_def)

text \<open>
  Claim C6, amended. For a user with \<open>N\<close> favorites (the foreign keys holding) and a
  request whose offset \<open>(page - 1) * per_page\<close> is at most \<open>2\<^sup>6\<^sup>3 - 1\<close>, List
  answers 200 with count \<open>N\<close>, whatever the page; total_pages is 0 for \<open>N = 0\<close> and
  otherwise the ceiling of \<open>N / per_page\<close>, the least number of pages that hold \<open>N\<close>
  rows; the items are the products of the rows from the offset on, at most per_page of
  them, and a page past total_pages has none. Beyond that offset List answers 500. With
  25 favorites and per_page 12, page 1 has 12 items, page 3 has 1, page 4 has 0, and each
  of them reports count 25 and 3 pages.
\<close>

theorem list_favorites_pagination:
  assumes "foreign_keys db" and "engine_ok st" and "length (favorites_of db uid) = N"
  shows "((clamp_page p - 1) * clamp_per_page pp \<le> bigint_max \<longrightarrow>
           (\<exists>fp. list_favorites st db uid p pp s = (Favorites fp, 200) \<and>
                 count fp = N \<and> page fp = clamp_page p \<and> per_page fp = clamp_per_page pp \<and>
                 total_pages fp = (if N = 0 then 0 else \<lceil>real N / real_of_int (per_page fp)\<rceil>) \<and>
                 int N \<le> total_pages fp * per_page fp \<and>
                 (0 < N \<longrightarrow> (total_pages fp - 1) * per_page fp < int N) \<and>
                 favorites fp = map (\<lambda>f. the (Product_get db (fav_product_id f)))
                   (page_of (favorites_query st db uid s) (page fp) (per_page fp)) \<and>
                 length (favorites fp) =
                   min (nat (per_page fp)) (N - nat ((page fp - 1) * per_page fp)) \<and>
                 (total_pages fp < page fp \<longrightarrow> favorites fp = []))) \<and>
         (bigint_max < (clamp_page p - 1) * clamp_per_page pp \<longrightarrow>
            snd (list_favorites st db uid p pp s) = 500) \<and>
         (N = 25 \<and> pp = 12 \<and> p = 1 \<longrightarrow>
            (\<exists>fp. list_favorites st db uid p pp s = (Favorites fp, 200) \<and>
                  count fp = 25 \<and> total_pages fp = 3 \<and> length (favorites fp) = 12)) \<and>
         (N = 25 \<and> pp = 12 \<and> p = 3 \<longrightarrow>
            (\<exists>fp. list_favorites st db uid p pp s = (Favorites fp, 200) \<and>
                  count fp = 25 \<and> total_pages fp = 3 \<and> length (favorites fp) = 1)) \<and>
         (N = 25 \<and> pp = 12 \<and> p = 4 \<longrightarrow>
            (\<exists>fp. list_favorites st db uid p pp s = (Favorites fp, 200) \<and>
                  count fp = 25 \<and> total_pages fp = 3 \<and> length (favorites fp) = 0))"
proof (intro conjI impI)
  let ?p = "clamp_page p" and ?pp = "clamp_per_page pp"
  let ?k = "if N = 0 then 0 else \<lceil>real N / real_of_int ?pp\<rceil>"
  have r: "1 \<le> ?pp"
    using clamp_per_page_range [of pp] by simp
  have b1: "int N \<le> ?k * ?pp" and b2: "0 < N \<longrightarrow> (?k - 1) * ?pp < int N"
    using pages_bounds [OF r, of N] by auto
  {
    assume off: "(?p - 1) * ?pp \<le> bigint_max"
    from list_favorites_total [OF assms off, of s] obtain fp
      where e: "list_favorites st db uid p pp s = (Favorites fp, 200)"
        and c: "count fp = N" and pg: "page fp = ?p" and pp: "per_page fp = ?pp"
        and t: "total_pages fp = ?k"
        and f: "favorites fp = map (\<lambda>f. the (Product_get db (fav_product_id f)))
                  (page_of (favorites_query st db uid s) ?p ?pp)"
        and l: "length (favorites fp) = min (nat ?pp) (N - nat ((?p - 1) * ?pp))"
      by (elim exE conjE)
    have past: "total_pages fp < page fp \<longrightarrow> favorites fp = []"
    proof
      assume "total_pages fp < page fp"
      then have "?k < ?p" by (simp only: t pg)
      from page_past_end [OF b1 this r] l show "favorites fp = []"
        by simp
    qed
    show "\<exists>fp. list_favorites st db uid p pp s = (Favorites fp, 200) \<and>
                 count fp = N \<and> page fp = clamp_page p \<and> per_page fp = clamp_per_page pp \<and>
                 total_pages fp = (if N = 0 then 0 else \<lceil>real N / real_of_int (per_page fp)\<rceil>) \<and>
                 int N \<le> total_pages fp * per_page fp \<and>
                 (0 < N \<longrightarrow> (total_pages fp - 1) * per_page fp < int N) \<and>
                 favorites fp = map (\<lambda>f. the (Product_get db (fav_product_id f)))
                   (page_of (favorites_query st db uid s) (page fp) (per_page fp)) \<and>
                 length (favorites fp) =
                   min (nat (per_page fp)) (N - nat ((page fp - 1) * per_page fp)) \<and>
                 (total_pages fp < page fp \<longrightarrow> favorites fp = [])"
    proof (intro exI [of _ fp] conjI)
      show "list_favorites st db uid p pp s = (Favorites fp, 200)" by (rule e)
      show "count fp = N" by (rule c)
      show "page fp = ?p" by (rule pg)
      show "per_page fp = ?pp" by (rule pp)
      show "total_pages fp = (if N = 0 then 0 else \<lceil>real N / real_of_int (per_page fp)\<rceil>)"
        by (simp only: t pp)
      show "int N \<le> total_pages fp * per_page fp"
        using b1 by (simp only: t pp)
      show "0 < N \<longrightarrow> (total_pages fp - 1) * per_page fp < int N"
        using b2 by (simp only: t pp)
      show "favorites fp = map (\<lambda>f. the (Product_get db (fav_product_id f)))
                   (page_of (favorites_query st db uid s) (page fp) (per_page fp))"
        by (simp only: f pg pp)
      show "length (favorites fp) = min (nat (per_page fp)) (N - nat ((page fp - 1) * per_page fp))"
        by (simp only: l pg pp)
      show "total_pages fp < page fp \<longrightarrow> favorites fp = []" by (rule past)
    qed
  }
  {
    assume "bigint_max < (?p - 1) * ?pp"
    then show "snd (list_favorites st db uid p pp s) = 500"
      by (simp add: list_favorites_error)
  }
  {
    fix n :: nat and q :: int
    assume h: "N = 25 \<and> pp = 12 \<and> p = q" and q: "q = 1 \<or> q = 3 \<or> q = 4"
      and n: "n = (if q = 1 then 12 else if q = 3 then 1 else 0)"
    from h have N: "N = 25" and pp: "pp = 12" and p: "p = q"
      by simp_all
    have cl: "?pp = 12" "?p = q"
      using q by (auto simp: pp p clamp_per_page_def clamp_page_def)
    have off: "(?p - 1) * ?pp \<le> bigint_max"
      using q by (auto simp: cl bigint_max_def)
    from list_favorites_total [OF assms off, of s] obtain fp
      where e: "list_favorites st db uid p pp s = (Favorites fp, 200)"
        and c: "count fp = N"
        and t: "total_pages fp = ?k"
        and l: "length (favorites fp) = min (nat ?pp) (N - nat ((?p - 1) * ?pp))"
      by (elim exE conjE)
    have t3: "total_pages fp = 3"
      unfolding t cl by (simp add: N)
    have ln: "length (favorites fp) = n"
      unfolding l cl using q by (auto simp: N n)
    have c25: "count fp = 25"
      by (simp only: c N)
    from e c25 t3 ln
    have "\<exists>fp. list_favorites st db uid p pp s = (Favorites fp, 200) \<and>
                  count fp = 25 \<and> total_pages fp = 3 \<and> length (favorites fp) = n"
      by (intro exI [of _ fp] conjI)
  }
  note example = this
  {
    assume h: "N = 25 \<and> pp = 12 \<and> p = 1"
    from example [OF h, of 12]
    show "\<exists>fp. list_favorites st db uid p pp s = (Favorites fp, 200) \<and>
                  count fp = 25 \<and> total_pages fp = 3 \<and> length (favorites fp) = 12"
      by simp
  }
  {
    assume h: "N = 25 \<and> pp = 12 \<and> p = 3"
    from example [OF h, of 1]
    show "\<exists>fp. list_favorites st db uid p pp s = (Favorites fp, 200) \<and>
                  count fp = 25 \<and> total_pages fp = 3 \<and> length (favorites fp) = 1"
      by simp
  }
  {
    assume h: "N = 25 \<and> pp = 12 \<and> p = 4"
    from example [OF h, of 0]
    show "\<exists>fp. list_favorites st db uid p pp s = (Favorites fp, 200) \<and>
                  count fp = 25 \<and> total_pages fp = 3 \<and> length (favorites fp) = 0"
      by simp
  }
qed

theorem list_favorites_pagination_witness:
  "foreign_keys (catalog_db 25) \<and> engine_ok sample_engine \<and>
   length (favorites_of (catalog_db 25) 1) = 25 \<and>
   (\<exists>fp. list_favorites sample_engine (catalog_db 25) 1 1 12 ''name'' = (Favorites fp, 200) \<and>
      count fp = 25 \<and> total_pages fp = 3 \<and> length (favorites fp) = 12) \<and>
   (\<exists>fp. list_favorites sample_engine (catalog_db 25) 1 3 12 ''name'' = (Favorites fp, 200) \<and>
      count fp = 25 \<and> total_pages fp = 3 \<and> length (favorites fp) = 1) \<and>
   (\<exists>fp. list_favorites sample_engine (catalog_db 25) 1 4 12 ''name'' = (Favorites fp, 200) \<and>
      count fp = 25 \<and> total_pages fp = 3 \<and> length (favorites fp) = 0) \<and>
   (\<exists>fp. list_favorites sample_engine (catalog_db 0) 1 1 12 ''name'' = (Favorites fp, 200) \<and>
      count fp = 0 \<and> total_pages fp = 0) \<and>
   snd (list_favorites sample_engine (catalog_db 25) 1 900000000000000000 12 ''name'') = 500"
proof -
  note th = list_favorites_pagination [OF catalog_foreign_keys sample_engine_ok catalog_length [of 25]]
  note th0 = list_favorites_pagination [OF catalog_foreign_keys sample_engine_ok catalog_length [of 0]]
  have p1: "\<exists>fp. list_favorites sample_engine (catalog_db 25) 1 1 12 ''name'' = (Favorites fp, 200) \<and>
      count fp = 25 \<and> total_pages fp = 3 \<and> length (favorites fp) = 12"
    by (rule th [where p = 1 and pp = 12,
          THEN conjunct2, THEN conjunct2, THEN conjunct1, THEN mp]) simp
  have p3: "\<exists>fp. list_favorites sample_engine (catalog_db 25) 1 3 12 ''name'' = (Favorites fp, 200) \<and>
      count fp = 25 \<and> total_pages fp = 3 \<and> length (favorites fp) = 1"
    by (rule th [where p = 3 and pp = 12,
          THEN conjunct2, THEN conjunct2, THEN conjunct2, THEN conjunct1, THEN mp]) simp
  have p4: "\<exists>fp. list_favorites sample_engine (catalog_db 25) 1 4 12 ''name'' = (Favorites fp, 200) \<and>
      count fp = 25 \<and> total_pages fp = 3 \<and> length (favorites fp) = 0"
    by (rule th [where p = 4 and pp = 12,
          THEN conjunct2, THEN conjunct2, THEN conjunct2, THEN conjunct2, THEN mp]) simp
  have off: "(clamp_page 1 - 1) * clamp_per_page 12 \<le> bigint_max"
    by (simp add: clamp_page_def bigint_max_def)
  from th0 [where p = 1 and pp = 12 and s = "''name''", THEN conjunct1, THEN mp, OF off]
  obtain fp where e: "list_favorites sample_engine (catalog_db 0) 1 1 12 ''name'' = (Favorites fp, 200)"
    and c: "count fp = 0"
    and t: "total_pages fp = (if (0::nat) = 0 then 0 else \<lceil>real 0 / real_of_int (per_page fp)\<rceil>)"
    by (elim exE conjE)
  from t have t0: "total_pages fp = 0" by simp
  from e c t0
  have p0: "\<exists>fp. list_favorites sample_engine (catalog_db 0) 1 1 12 ''name'' = (Favorites fp, 200) \<and>
      count fp = 0 \<and> total_pages fp = 0"
    by (intro exI [of _ fp] conjI)
  have big: "snd (list_favorites sample_engine (catalog_db 25) 1 900000000000000000 12 ''name'') = 500"
    by (rule th [where p = 900000000000000000 and pp = 12,
          THEN conjunct2, THEN conjunct1, THEN mp])
       (simp add: clamp_page_def clamp_per_page_def bigint_max_def)
  from catalog_foreign_keys [of 25] sample_engine_ok catalog_length [of 25] p1 p3 p4 p0 big
  show ?thesis
    by (intro conjI)
qed

section \<open>ClearAll (claim C7)\<close>

lemma favorites_query_empty:
  assumes "engine_ok st" "favorites_of db uid = []"
  shows "favorites_query st db uid s = []"
proof -
  have "scan st (favorites_of db uid) = []"
    using engine_ok_length [OF assms(1), of "favorites_of db uid"] assms(2) by simp
  then show ?thesis
    by (simp add: favorites_query_def join_Product_def)
qed

lemma list_favorites_empty:
  assumes "engine_ok st" "favorites_of db uid = []"
    "(clamp_page p - 1) * clamp_per_page pp \<le> bigint_max"
  shows "list_favorites st db uid p pp s =
     (Favorites \<lparr>count = 0, page = clamp_page p, per_page = clamp_per_page pp,
                 total_pages = 0, favorites = []\<rparr>, 200)"
  using assms(3)
  by (simp add: list_favorites_def favorites_query_empty [OF assms(1,2)] paginate_clamped
                page_of_def Let_def)

lemma clear_all_favorites_eq:
  "clear_all_favorites db uid =
     ((Deleted (''Deleted '' @ str (int (length (favorites_of db uid))) @ '' products from favorites'')
         (length (favorites_of db uid)), 200),
      db\<lparr>user_favorites := filter (\<lambda>f. fav_user_id f \<noteq> uid) (user_favorites db)\<rparr>)"
  by (simp add: clear_all_favorites_def delete_favorites_of_def Let_def)

lemma clear_all_favorites_none:
  "favorites_of (snd (clear_all_favorites db uid)) uid = []"
  by (simp add: clear_all_favorites_eq favorites_of_def)

text \<open>
  A List after ClearAll is not the empty page for every request: for page
  768614336404564652 and per_page 12 the offset is \<open>2\<^sup>6\<^sup>3 + 4\<close>, the store refuses the
  page query and List answers 500.
\<close>

theorem clear_all_favorites_counterexample:
  "snd (list_favorites sample_engine (snd (clear_all_favorites sample_db 1)) 1
          768614336404564652 12 ''name'') = 500"
  by (simp add: list_favorites_error clamp_page_def clamp_per_page_def bigint_max_def)

text \<open>
  Claim C7, amended. ClearAll answers 200 with a deleted count equal to the number of the
  user's favorites before the call (0 included: the response has the same shape), and
  the store afterwards holds exactly the rows of the other users. A List for the user on
  that store whose offset \<open>(page - 1) * per_page\<close> is at most \<open>2\<^sup>6\<^sup>3 - 1\<close> (every
  request for page 1 is one) is the empty page with count 0 and 0 pages.
\<close>

theorem clear_all_favorites_count:
  "clear_all_favorites db uid =
     ((Deleted (''Deleted '' @ str (int (length (favorites_of db uid))) @ '' products from favorites'')
         (length (favorites_of db uid)), 200),
      db\<lparr>user_favorites := filter (\<lambda>f. fav_user_id f \<noteq> uid) (user_favorites db)\<rparr>)
   \<and> favorites_of (snd (clear_all_favorites db uid)) uid = []
   \<and> length (user_favorites (snd (clear_all_favorites db uid))) + length (favorites_of db uid)
       = length (user_favorites db)
   \<and> (engine_ok st \<and> (clamp_page p - 1) * clamp_per_page pp \<le> bigint_max \<longrightarrow>
        list_favorites st (snd (clear_all_favorites db uid)) uid p pp s =
          (Favorites \<lparr>count = 0, page = clamp_page p, per_page = clamp_per_page pp,
                      total_pages = 0, favorites = []\<rparr>, 200))
   \<and> (clamp_page 1 - 1) * clamp_per_page pp \<le> bigint_max"
proof -
  have len: "length (user_favorites (snd (clear_all_favorites db uid))) + length (favorites_of db uid)
       = length (user_favorites db)"
    using sum_length_filter_compl [of "\<lambda>f. fav_user_id f = uid" "user_favorites db"]
    by (simp add: clear_all_favorites_eq favorites_of_def)
  have first: "(clamp_page 1 - 1) * clamp_per_page pp \<le> bigint_max"
    by (simp add: clamp_page_def bigint_max_def)
  show ?thesis
    using clear_all_favorites_eq [of db uid] clear_all_favorites_none [of db uid] len first
      list_favorites_empty [OF _ clear_all_favorites_none, of st p pp db uid s]
    by blast
qed

theorem clear_all_favorites_count_witness:
  "engine_ok sample_engine \<and>
   fst (clear_all_favorites sample_db 1) = (Deleted ''Deleted 1 products from favorites'' 1, 200) \<and>
   user_favorites (snd (clear_all_favorites sample_db 1)) = [] \<and>
   list_favorites sample_engine (snd (clear_all_favorites sample_db 1)) 1 1 12 ''name'' =
     (Favorites \<lparr>count = 0, page = 1, per_page = 12, total_pages = 0, favorites = []\<rparr>, 200) \<and>
   fst (clear_all_favorites (snd (clear_all_favorites sample_db 1)) 1) =
     (Deleted ''Deleted 0 products from favorites'' 0, 200)"
proof -
  note th = clear_all_favorites_count [of sample_db 1 sample_engine 1 12 "''name''"]
  have f: "favorites_of sample_db 1 = [sample_favorite 1 1 7 100]"
    by (simp add: favorites_of_def sample_defs)
  have s1: "str 1 = ''1''" and s0: "str 0 = ''0''"
    by code_simp+
  have a: "fst (clear_all_favorites sample_db 1) = (Deleted ''Deleted 1 products from favorites'' 1, 200)"
    using th by (simp add: f s1)
  have b: "user_favorites (snd (clear_all_favorites sample_db 1)) = []"
    using th by (simp add: sample_defs)
  have cl: "clamp_page 1 = 1" "clamp_per_page 12 = 12"
    by (simp_all add: clamp_page_def clamp_per_page_def)
  have off: "(clamp_page 1 - 1) * clamp_per_page 12 \<le> bigint_max"
    by (simp add: cl bigint_max_def)
  from th sample_engine_ok off
  have "list_favorites sample_engine (snd (clear_all_favorites sample_db 1)) 1 1 12 ''name'' =
     (Favorites \<lparr>count = 0, page = clamp_page 1, per_page = clamp_per_page 12,
                 total_pages = 0, favorites = []\<rparr>, 200)"
    by blast
  then have c: "list_favorites sample_engine (snd (clear_all_favorites sample_db 1)) 1 1 12 ''name'' =
     (Favorites \<lparr>count = 0, page = 1, per_page = 12, total_pages = 0, favorites = []\<rparr>, 200)"
    by (simp only: cl)
  have d: "fst (clear_all_favorites (snd (clear_all_favorites sample_db 1)) 1) =
     (Deleted ''Deleted 0 products from favorites'' 0, 200)"
    using clear_all_favorites_none [of sample_db 1]
    by (simp add: clear_all_favorites_eq [of "snd (clear_all_favorites sample_db 1)"] s0)
  show ?thesis
    using a b c d sample_engine_ok by blast
qed

section \<open>Malformed pagination parameters (claim C10)\<close>

lemma map_of_filter_key:
  "map_of (filter (\<lambda>kv. fst kv \<noteq> k) args) k' = (if k' = k then None else map_of args k')"
  by (induction args) auto

lemma args_get_removed:
  "args_get (filter (\<lambda>kv. fst kv \<noteq> k) args) k' dflt type =
     (if k' = k then dflt else args_get args k' dflt type)"
  by (simp add: args_get_def map_of_filter_key)

lemma args_get_malformed:
  "map_of args k = Some v \<Longrightarrow> type v = None \<Longrightarrow> args_get args k dflt type = dflt"
  by (simp add: args_get_def)

lemma python_int_samples:
  "python_int ''abc'' = None" "python_int ''1.5'' = None"
  "python_int ''768614336404564652'' = Some 768614336404564652"
  "python_int ''900000000000000000'' = Some 900000000000000000"
  by (simp_all add: python_int_def strip_def py_isspace_def digit_of_def)

text \<open>
  List can fail on a request with a malformed pagination parameter: with a \<open>per_page\<close>
  that is not an integer, replaced by 12, and page 768614336404564652 the offset is
  beyond \<^verbatim>\<open>bigint\<close> and List answers 500.
\<close>

theorem malformed_pagination_counterexample:
  "python_int ''abc'' = None \<and>
   snd (get_my_favorites python_int sample_engine sample_db 1
          [(''page'', ''768614336404564652''), (''per_page'', ''abc'')]) = 500"
  by (simp add: get_my_favorites_def args_get_def python_int_samples list_favorites_error
                clamp_page_def clamp_per_page_def bigint_max_def)

text \<open>
  Claim C10, amended. A \<open>page\<close> or \<open>per_page\<close> parameter that the integer conversion
  rejects is replaced by its default, 1 or 12, and produces no error of its own: List
  answers as it does for the request without that parameter. With a malformed \<open>page\<close>
  List succeeds, on page 1 (the foreign keys holding). With a malformed \<open>per_page\<close> it
  succeeds, with per_page 12, whenever the offset \<open>(page - 1) * 12\<close> is at most
  \<open>2\<^sup>6\<^sup>3 - 1\<close>, and answers 500 beyond that.
\<close>

theorem malformed_pagination_defaults:
  "(map_of args ''page'' = Some v \<and> py_int v = None \<longrightarrow>
      get_my_favorites py_int st db uid args =
        get_my_favorites py_int st db uid (filter (\<lambda>kv. fst kv \<noteq> ''page'') args) \<and>
      get_my_favorites py_int st db uid args =
        list_favorites st db uid 1 (args_get args ''per_page'' 12 py_int)
          (args_get args ''sort_by'' ''name'' Some) \<and>
      (foreign_keys db \<and> engine_ok st \<longrightarrow>
         (\<exists>fp. get_my_favorites py_int st db uid args = (Favorites fp, 200) \<and> page fp = 1)))
   \<and> (map_of args ''per_page'' = Some w \<and> py_int w = None \<longrightarrow>
      get_my_favorites py_int st db uid args =
        get_my_favorites py_int st db uid (filter (\<lambda>kv. fst kv \<noteq> ''per_page'') args) \<and>
      get_my_favorites py_int st db uid args =
        list_favorites st db uid (args_get args ''page'' 1 py_int) 12
          (args_get args ''sort_by'' ''name'' Some) \<and>
      (foreign_keys db \<and> engine_ok st \<and>
       (clamp_page (args_get args ''page'' 1 py_int) - 1) * 12 \<le> bigint_max \<longrightarrow>
         (\<exists>fp. get_my_favorites py_int st db uid args = (Favorites fp, 200) \<and> per_page fp = 12)) \<and>
      (bigint_max < (clamp_page (args_get args ''page'' 1 py_int) - 1) * 12 \<longrightarrow>
         snd (get_my_favorites py_int st db uid args) = 500))"
proof (intro conjI impI)
  assume h: "map_of args ''page'' = Some v \<and> py_int v = None"
  then have pg: "args_get args ''page'' 1 py_int = 1"
    by (simp add: args_get_malformed)
  show "get_my_favorites py_int st db uid args =
        get_my_favorites py_int st db uid (filter (\<lambda>kv. fst kv \<noteq> ''page'') args)"
    by (simp add: get_my_favorites_def args_get_removed pg)
  show eq: "get_my_favorites py_int st db uid args =
        list_favorites st db uid 1 (args_get args ''per_page'' 12 py_int)
          (args_get args ''sort_by'' ''name'' Some)"
    by (simp add: get_my_favorites_def pg)
  assume ok: "foreign_keys db \<and> engine_ok st"
  have "(clamp_page 1 - 1) * clamp_per_page (args_get args ''per_page'' 12 py_int) \<le> bigint_max"
    by (simp add: clamp_page_def bigint_max_def)
  from list_favorites_ok [OF conjunct1 [OF ok] conjunct2 [OF ok] this]
  show "\<exists>fp. get_my_favorites py_int st db uid args = (Favorites fp, 200) \<and> page fp = 1"
    by (simp add: eq clamp_page_def)
next
  assume h: "map_of args ''per_page'' = Some w \<and> py_int w = None"
  then have pp: "args_get args ''per_page'' 12 py_int = 12"
    by (simp add: args_get_malformed)
  have cl: "clamp_per_page 12 = 12"
    by (simp add: clamp_per_page_def)
  show "get_my_favorites py_int st db uid args =
        get_my_favorites py_int st db uid (filter (\<lambda>kv. fst kv \<noteq> ''per_page'') args)"
    by (simp add: get_my_favorites_def args_get_removed pp)
  show eq: "get_my_favorites py_int st db uid args =
        list_favorites st db uid (args_get args ''page'' 1 py_int) 12
          (args_get args ''sort_by'' ''name'' Some)"
    by (simp add: get_my_favorites_def pp)
  {
    assume ok: "foreign_keys db \<and> engine_ok st \<and>
       (clamp_page (args_get args ''page'' 1 py_int) - 1) * 12 \<le> bigint_max"
    then have "(clamp_page (args_get args ''page'' 1 py_int) - 1) * clamp_per_page 12 \<le> bigint_max"
      by (simp add: cl)
    from list_favorites_ok [OF _ _ this, of db st uid] ok
    show "\<exists>fp. get_my_favorites py_int st db uid args = (Favorites fp, 200) \<and> per_page fp = 12"
      by (simp add: eq cl)
  }
  {
    assume "bigint_max < (clamp_page (args_get args ''page'' 1 py_int) - 1) * 12"
    then have "bigint_max < (clamp_page (args_get args ''page'' 1 py_int) - 1) * clamp_per_page 12"
      by (simp add: cl)
    from list_favorites_error [OF this]
    show "snd (get_my_favorites py_int st db uid args) = 500"
      by (simp add: eq)
  }
qed

theorem malformed_pagination_defaults_witness:
  "foreign_keys sample_db \<and> engine_ok sample_engine \<and>
   python_int ''abc'' = None \<and> python_int ''1.5'' = None \<and>
   get_my_favorites python_int sample_engine sample_db 1 [(''page'', ''abc''), (''per_page'', ''1.5'')] =
     list_favorites sample_engine sample_db 1 1 12 ''name'' \<and>
   (\<exists>fp. get_my_favorites python_int sample_engine sample_db 1
            [(''page'', ''abc''), (''per_page'', ''1.5'')] = (Favorites fp, 200) \<and> page fp = 1) \<and>
   (\<exists>fp. get_my_favorites python_int sample_engine sample_db 1
            [(''page'', ''abc''), (''per_page'', ''1.5'')] = (Favorites fp, 200) \<and> per_page fp = 12) \<and>
   snd (get_my_favorites python_int sample_engine sample_db 1
          [(''page'', ''900000000000000000''), (''per_page'', ''1.5'')]) = 500"
proof -
  let ?args = "[(''page'', ''abc''), (''per_page'', ''1.5'')]"
  let ?big = "[(''page'', ''900000000000000000''), (''per_page'', ''1.5'')]"
  note a = python_int_samples(1) and b = python_int_samples(2)
  note th = malformed_pagination_defaults [of ?args "''abc''" python_int sample_engine sample_db 1 "''1.5''"]
  note tb = malformed_pagination_defaults [of ?big "''abc''" python_int sample_engine sample_db 1 "''1.5''"]
  have m1: "map_of ?args ''page'' = Some ''abc''" and m2: "map_of ?args ''per_page'' = Some ''1.5''"
    and m3: "map_of ?big ''per_page'' = Some ''1.5''"
    by simp_all
  have g1: "args_get ?args ''page'' 1 python_int = 1"
    and g2: "args_get ?args ''per_page'' 12 python_int = 12"
    and g3: "args_get ?args ''sort_by'' ''name'' Some = ''name''"
    and g4: "args_get ?big ''page'' 1 python_int = 900000000000000000"
    by (simp_all add: args_get_def python_int_samples)
  have o1: "(clamp_page (args_get ?args ''page'' 1 python_int) - 1) * 12 \<le> bigint_max"
    by (simp add: g1 clamp_page_def bigint_max_def)
  have o2: "bigint_max < (clamp_page (args_get ?big ''page'' 1 python_int) - 1) * 12"
    by (simp add: g4 clamp_page_def bigint_max_def)
  from th m1 a
  have "get_my_favorites python_int sample_engine sample_db 1 ?args =
        list_favorites sample_engine sample_db 1 1 (args_get ?args ''per_page'' 12 python_int)
          (args_get ?args ''sort_by'' ''name'' Some)"
    by blast
  then have c1: "get_my_favorites python_int sample_engine sample_db 1 ?args =
     list_favorites sample_engine sample_db 1 1 12 ''name''"
    by (simp only: g2 g3)
  from th m1 a sample_foreign_keys sample_engine_ok
  have c2: "\<exists>fp. get_my_favorites python_int sample_engine sample_db 1 ?args = (Favorites fp, 200) \<and>
              page fp = 1"
    by blast
  from th m2 b sample_foreign_keys sample_engine_ok o1
  have c3: "\<exists>fp. get_my_favorites python_int sample_engine sample_db 1 ?args = (Favorites fp, 200) \<and>
              per_page fp = 12"
    by blast
  from tb m3 b o2
  have c4: "snd (get_my_favorites python_int sample_engine sample_db 1 ?big) = 500"
    by blast
  show ?thesis
    using a b c1 c2 c3 c4 sample_foreign_keys sample_engine_ok by blast
qed

section \<open>Login rejections (claim C8)\<close>



section \<open>The two category routes (claim C9)\<close>






end
